theory Spec2Isabelle
  imports Main "HOL-Library.AList" "HOL-Library.Multiset"
begin

section \<open>JavaScript values\<close>

text \<open>
  The values that travel through the synchronisation engine are JSON-like: provider
  payloads, token records and settings. Numbers are the integer-valued ones and \<open>NaN\<close>
  (fractions and infinities do not occur in the payloads and are outside the model). No
  value is a function. An object is an association list from property names to values,
  in insertion order.
\<close>

datatype jsval =
    JUndefined
  | JNull
  | JBool bool
  | JNaN
  | JNum int
  | JStr string
  | JArr "jsval list"
  | JObj "(string \<times> jsval) list"

type_synonym obj = "(string \<times> jsval) list"

text \<open>An exception value: \<open>new Error(message)\<close>, or what a store or network call throws.\<close>

datatype js_error = JsError (message: string)

text \<open>\<open>!!v\<close>: the falsy values are \<open>undefined\<close>, \<open>null\<close>, \<open>false\<close>, \<open>NaN\<close>, \<open>0\<close> and \<open>''\<close>.\<close>

fun truthy :: "jsval \<Rightarrow> bool" where
  "truthy JUndefined = False"
| "truthy JNull = False"
| "truthy (JBool b) = b"
| "truthy JNaN = False"
| "truthy (JNum n) = (n \<noteq> 0)"
| "truthy (JStr s) = (s \<noteq> [])"
| "truthy (JArr xs) = True"
| "truthy (JObj ps) = True"

fun typeof :: "jsval \<Rightarrow> string" where
  "typeof JUndefined = ''undefined''"
| "typeof JNull = ''object''"
| "typeof (JBool b) = ''boolean''"
| "typeof JNaN = ''number''"
| "typeof (JNum n) = ''number''"
| "typeof (JStr s) = ''string''"
| "typeof (JArr xs) = ''object''"
| "typeof (JObj ps) = ''object''"

fun isArray :: "jsval \<Rightarrow> bool" where
  "isArray (JArr xs) = True"
| "isArray v = False"

text \<open>\<open>a || b\<close> on values.\<close>

definition js_or :: "jsval \<Rightarrow> jsval \<Rightarrow> jsval" where
  "js_or a b = (if truthy a then a else b)"

text \<open>\<open>o[k]\<close> on an object: a missing property reads as \<open>undefined\<close>.\<close>

definition field :: "obj \<Rightarrow> string \<Rightarrow> jsval" where
  "field ps k = (case map_of ps k of None \<Rightarrow> JUndefined | Some v \<Rightarrow> v)"

text \<open>
  \<open>v.k\<close> on a value the caller has found truthy, and \<open>v?.k\<close> on any value, for the
  property names this program reads (none of them is \<open>length\<close> or an index, so that
  strings and arrays have no such property).
\<close>

fun member :: "jsval \<Rightarrow> string \<Rightarrow> jsval" where
  "member (JObj ps) k = field ps k"
| "member v k = JUndefined"

text \<open>\<open>a === b\<close>: \<open>NaN\<close> equals nothing, arrays and objects are compared by reference, and
  a value read from the store is never the same reference as one of the payload.\<close>

fun strict_eq :: "jsval \<Rightarrow> jsval \<Rightarrow> bool" where
  "strict_eq JNaN b = False"
| "strict_eq (JArr xs) b = False"
| "strict_eq (JObj ps) b = False"
| "strict_eq a b = (a = b)"

text \<open>Decimal digits of a natural number.\<close>

fun digits_of :: "nat \<Rightarrow> string" where
  "digits_of n =
     (if n < 10 then [''0123456789'' ! n]
      else digits_of (n div 10) @ [''0123456789'' ! (n mod 10)])"

declare digits_of.simps [simp del]

definition int_to_string :: "int \<Rightarrow> string" where
  "int_to_string i = (if i < 0 then CHR ''-'' # digits_of (nat (- i)) else digits_of (nat i))"

fun join :: "string \<Rightarrow> string list \<Rightarrow> string" where
  "join sep [] = []"
| "join sep [x] = x"
| "join sep (x # y # ys) = x @ sep @ join sep (y # ys)"

text \<open>\<open>s.includes(t)\<close>.\<close>

fun js_includes :: "string \<Rightarrow> string \<Rightarrow> bool" where
  "js_includes [] t = (t = [])"
| "js_includes (c # s) t = (take (length t) (c # s) = t \<or> js_includes s t)"

subsection \<open>The runtime and the collaborators\<close>

text \<open>
  What the engine takes from outside its own code is a parameter of the model:
  \<^item> of the JavaScript runtime: the clock (\<open>new Date()\<close>, in milliseconds),
    \<open>Date.parse\<close> on strings (\<open>None\<close> is an invalid date), \<open>toISOString\<close> on a
    valid time value, whether \<open>Number(s)\<close> of a string is a number (\<open>False\<close>
    is \<open>NaN\<close>), and the text of a number beyond the safe integers, which the
    runtime prints from its shortest digits and, from \<open>1e21\<close> on, with an exponent;
  \<^item> of the canonical store: for each call, whether it throws. The oracles see the
    store as it is at the call.
\<close>

record runtime =
  now :: int
  parseDate :: "string \<Rightarrow> int option"
  isoString :: "int \<Rightarrow> string"
  numericString :: "string \<Rightarrow> bool"
  largeNumberString :: "int \<Rightarrow> string"

subsection \<open>Conversions\<close>

text \<open>
  \<open>String(v)\<close>, \<open>Number(v)\<close>, \<open>new Date(v)\<close>, a template literal and \<open>+\<close> on a string all
  bring \<open>v\<close> to a primitive first. No property of a JSON payload is callable. So an
  object with an own \<open>toString\<close> cannot be converted: its \<open>toString\<close> is not callable,
  and \<open>valueOf\<close>, own or inherited, gives no primitive; the conversion throws a
  \<open>TypeError\<close>. Every other object converts by the inherited \<open>toString\<close>. An array
  converts by \<open>join\<close>, which converts its elements.
\<close>

fun toPrimitive_throws :: "jsval \<Rightarrow> bool" where
  "toPrimitive_throws (JObj ps) = (''toString'' \<in> set (map fst ps))"
| "toPrimitive_throws (JArr xs) = list_ex toPrimitive_throws xs"
| "toPrimitive_throws v = False"

definition conversion_error :: js_error where
  "conversion_error = JsError ''Cannot convert object to primitive value''"

text \<open>The text of a number: its decimal digits up to \<open>2^53\<close>, what the runtime prints
  beyond.\<close>

definition number_string :: "runtime \<Rightarrow> int \<Rightarrow> string" where
  "number_string rt n =
     (if \<bar>n\<bar> \<le> 9007199254740992 then int_to_string n else largeNumberString rt n)"

text \<open>The text of a value that converts. An array joins its elements with commas,
  \<open>null\<close> and \<open>undefined\<close> elements as the empty string.\<close>

fun string_of :: "runtime \<Rightarrow> jsval \<Rightarrow> string" where
  "string_of rt JUndefined = ''undefined''"
| "string_of rt JNull = ''null''"
| "string_of rt (JBool b) = (if b then ''true'' else ''false'')"
| "string_of rt JNaN = ''NaN''"
| "string_of rt (JNum n) = number_string rt n"
| "string_of rt (JStr s) = s"
| "string_of rt (JArr xs) =
     join '','' (map (\<lambda>v. if v = JUndefined \<or> v = JNull then [] else string_of rt v) xs)"
| "string_of rt (JObj ps) = ''[object Object]''"

text \<open>\<open>String(v)\<close>, also what a template literal and \<open>'' + v\<close> do to \<open>v\<close>.\<close>

definition js_String :: "runtime \<Rightarrow> jsval \<Rightarrow> js_error + string" where
  "js_String rt v = (if toPrimitive_throws v then Inl conversion_error else Inr (string_of rt v))"

text \<open>Whether \<open>Number(v)\<close> is \<open>NaN\<close>, for a value that converts.\<close>

fun nan_of :: "runtime \<Rightarrow> jsval \<Rightarrow> bool" where
  "nan_of rt JUndefined = True"
| "nan_of rt JNull = False"
| "nan_of rt (JBool b) = False"
| "nan_of rt JNaN = True"
| "nan_of rt (JNum n) = False"
| "nan_of rt (JStr s) = (\<not> numericString rt s)"
| "nan_of rt (JArr xs) = (\<not> numericString rt (string_of rt (JArr xs)))"
| "nan_of rt (JObj ps) = True"

text \<open>\<open>isNaN(Number(v))\<close>.\<close>

definition number_isNaN :: "runtime \<Rightarrow> jsval \<Rightarrow> js_error + bool" where
  "number_isNaN rt v = (if toPrimitive_throws v then Inl conversion_error else Inr (nan_of rt v))"

text \<open>The time value of \<open>new Date(v)\<close>, for a value that converts; \<open>None\<close> is
  \<open>Invalid Date\<close>.\<close>

fun time_of :: "runtime \<Rightarrow> jsval \<Rightarrow> int option" where
  "time_of rt JUndefined = None"
| "time_of rt JNull = Some 0"
| "time_of rt (JBool b) = Some (if b then 1 else 0)"
| "time_of rt JNaN = None"
| "time_of rt (JNum n) = (if \<bar>n\<bar> \<le> 8640000000000000 then Some n else None)"
| "time_of rt (JStr s) = parseDate rt s"
| "time_of rt (JArr xs) = parseDate rt (string_of rt (JArr xs))"
| "time_of rt (JObj ps) = parseDate rt ''[object Object]''"

text \<open>\<open>new Date(v)\<close>.\<close>

definition new_Date :: "runtime \<Rightarrow> jsval \<Rightarrow> js_error + int option" where
  "new_Date rt v = (if toPrimitive_throws v then Inl conversion_error else Inr (time_of rt v))"

text \<open>Sequencing of steps that may throw: the first exception ends the sequence.\<close>

definition and_then :: "js_error + 'a \<Rightarrow> ('a \<Rightarrow> js_error + 'b) \<Rightarrow> js_error + 'b" where
  "and_then r k = (case r of Inl e \<Rightarrow> Inl e | Inr x \<Rightarrow> k x)"

section \<open>The batch processor\<close>

subsection \<open>The canonical store\<close>

datatype sync_status = SyncSuccess | SyncError

record user_row =
  uid :: nat
  permissionId :: jsval
  email :: jsval
  displayName :: jsval
  photoLink :: jsval

text \<open>The object \<open>sanitizeFileData\<close> builds, with the \<open>userId\<close> that \<open>processFiles\<close> adds.
  \<open>None\<close> is \<open>null\<close>; a date is \<open>Some d\<close>, with \<open>d = None\<close> for \<open>Invalid Date\<close>.\<close>

record canonical =
  f_id :: string
  f_name :: string
  f_mimeType :: string
  f_iconLink :: "string option"
  f_webViewLink :: "string option"
  f_size :: "string option"
  f_shared :: bool
  f_trashed :: bool
  f_createdTime :: "int option option"
  f_modifiedTime :: "int option option"
  f_version :: "string option"
  f_owner :: jsval
  f_lastModifyingUser :: jsval
  f_permissions :: jsval
  f_capabilities :: jsval
  f_metadata :: obj
  f_syncStatus :: sync_status
  f_lastSyncAttempt :: int
  f_userId :: "nat option"

record error_log =
  l_error :: string
  l_timestamp :: int
  l_details :: js_error

text \<open>The object of the \<open>catch\<close> branch of \<open>processFiles\<close>.\<close>

record degraded =
  d_id :: jsval
  d_metadata :: obj
  d_syncStatus :: sync_status
  d_lastSyncAttempt :: int
  d_errorLog :: error_log

datatype upsert_arg = Sanitized canonical | Degraded degraded

fun arg_id :: "upsert_arg \<Rightarrow> jsval" where
  "arg_id (Sanitized c) = JStr (f_id c)"
| "arg_id (Degraded d) = d_id d"

fun arg_status :: "upsert_arg \<Rightarrow> sync_status" where
  "arg_status (Sanitized c) = f_syncStatus c"
| "arg_status (Degraded d) = d_syncStatus d"

record file_row =
  r_columns :: "canonical option"
  r_metadata :: obj
  r_syncStatus :: sync_status
  r_lastSyncAttempt :: int
  r_errorLog :: "error_log option"

text \<open>
  The store: the rows of \<open>User\<close> with the next primary key the database will give, the
  rows of \<open>File\<close> by id, and the \<open>File.upsert\<close> calls that went through, oldest first.
\<close>

record store =
  users :: "user_row list"
  next_uid :: nat
  files :: "(jsval \<times> file_row) list"
  upserts :: "upsert_arg list"

record store_faults =
  findOrCreate_throws :: "store \<Rightarrow> jsval \<Rightarrow> js_error option"
  update_throws :: "store \<Rightarrow> user_row \<Rightarrow> js_error option"
  updateStats_throws :: "store \<Rightarrow> user_row \<Rightarrow> js_error option"
  upsert_throws :: "store \<Rightarrow> upsert_arg \<Rightarrow> js_error option"

text \<open>
  Modelled from the spec: the models \<open>File\<close> and \<open>User\<close> of \<open>../models\<close> are not among
  the sources. The spec gives the store "upsert-by-id for File and find-or-create/update
  for User", "insert-or-update keyed by unique identifier", a unique-key conflict being a
  merge: an upsert writes the columns it is given and leaves the others of the row.
\<close>

definition merge_row :: "upsert_arg \<Rightarrow> file_row option \<Rightarrow> file_row" where
  "merge_row a old =
     (case a of
        Sanitized c \<Rightarrow>
          \<lparr> r_columns = Some c, r_metadata = f_metadata c, r_syncStatus = f_syncStatus c,
            r_lastSyncAttempt = f_lastSyncAttempt c,
            r_errorLog = (case old of None \<Rightarrow> None | Some r \<Rightarrow> r_errorLog r) \<rparr>
      | Degraded d \<Rightarrow>
          \<lparr> r_columns = (case old of None \<Rightarrow> None | Some r \<Rightarrow> r_columns r),
            r_metadata = d_metadata d, r_syncStatus = d_syncStatus d,
            r_lastSyncAttempt = d_lastSyncAttempt d, r_errorLog = Some (d_errorLog d) \<rparr>)"

text \<open>Modelled from the spec: \<open>File.upsert\<close>, keyed by \<open>id\<close>; it throws, or merges the row
  and is added to the calls that went through.\<close>

definition File_upsert :: "store_faults \<Rightarrow> upsert_arg \<Rightarrow> store \<Rightarrow> js_error + store" where
  "File_upsert fl a st =
     (case upsert_throws fl st a of
        Some e \<Rightarrow> Inl e
      | None \<Rightarrow>
          Inr (st \<lparr> files := AList.update (arg_id a) (merge_row a (map_of (files st) (arg_id a))) (files st),
                    upserts := upserts st @ [a] \<rparr>))"

text \<open>Modelled from the spec: \<open>User.findOrCreate\<close>, keyed by \<open>permissionId\<close>; the result is
  the row and whether it was created.\<close>

definition User_findOrCreate ::
  "store_faults \<Rightarrow> jsval \<Rightarrow> jsval \<Rightarrow> jsval \<Rightarrow> jsval \<Rightarrow> store \<Rightarrow> js_error + ((user_row \<times> bool) \<times> store)" where
  "User_findOrCreate fl pid em dn ph st =
     (case findOrCreate_throws fl st pid of
        Some e \<Rightarrow> Inl e
      | None \<Rightarrow>
          (case find (\<lambda>u. permissionId u = pid) (users st) of
             Some u \<Rightarrow> Inr ((u, False), st)
           | None \<Rightarrow>
               (let u = \<lparr> uid = next_uid st, permissionId = pid, email = em,
                          displayName = dn, photoLink = ph \<rparr>
                in Inr ((u, True), st \<lparr> users := users st @ [u], next_uid := Suc (next_uid st) \<rparr>))))"

text \<open>Modelled from the spec: \<open>user.update\<close> writes the three columns of the row of that
  instance, in place; the instance returned carries the new values.\<close>

definition User_update ::
  "store_faults \<Rightarrow> user_row \<Rightarrow> jsval \<Rightarrow> jsval \<Rightarrow> jsval \<Rightarrow> store \<Rightarrow> js_error + (user_row \<times> store)" where
  "User_update fl u em dn ph st =
     (case update_throws fl st u of
        Some e \<Rightarrow> Inl e
      | None \<Rightarrow>
          (let u' = u \<lparr> email := em, displayName := dn, photoLink := ph \<rparr>
           in Inr (u', st \<lparr> users := map (\<lambda>r. if uid r = uid u then u' else r) (users st) \<rparr>)))"

text \<open>Modelled from the spec: \<open>user.updateStats\<close> recomputes the "aggregate stats" of the
  user, which are no part of this model: the call throws or leaves the rows above as
  they are.\<close>

definition User_updateStats :: "store_faults \<Rightarrow> user_row \<Rightarrow> store \<Rightarrow> js_error + store" where
  "User_updateStats fl u st =
     (case updateStats_throws fl st u of Some e \<Rightarrow> Inl e | None \<Rightarrow> Inr st)"

subsection \<open>Owner resolution\<close>

text \<open>The comparison of the row found with the incoming owner.\<close>

definition owner_differs :: "user_row \<Rightarrow> jsval \<Rightarrow> bool" where
  "owner_differs user ownerData =
     (\<not> strict_eq (email user) (member ownerData ''emailAddress'')
      \<or> \<not> strict_eq (displayName user) (member ownerData ''displayName'')
      \<or> \<not> strict_eq (photoLink user) (member ownerData ''photoLink''))"

text \<open>\<open>processOwner\<close>: the result is the user, or \<open>None\<close> for \<open>null\<close>; it never throws.\<close>

definition processOwner :: "store_faults \<Rightarrow> jsval \<Rightarrow> store \<Rightarrow> user_row option \<times> store" where
  "processOwner fl ownerData st =
     (if \<not> truthy ownerData \<or> \<not> truthy (member ownerData ''emailAddress'')
         \<or> \<not> truthy (member ownerData ''permissionId'')
      then (None, st)
      else
        (case User_findOrCreate fl (member ownerData ''permissionId'')
                (member ownerData ''emailAddress'')
                (js_or (member ownerData ''displayName'') JNull)
                (js_or (member ownerData ''photoLink'') JNull) st of
           Inl e \<Rightarrow> (None, st)
         | Inr ((user, created), st1) \<Rightarrow>
             (if \<not> created \<and> owner_differs user ownerData
              then
                (case User_update fl user (member ownerData ''emailAddress'')
                        (js_or (member ownerData ''displayName'') JNull)
                        (js_or (member ownerData ''photoLink'') JNull) st1 of
                   Inl e \<Rightarrow> (None, st1)
                 | Inr (user', st2) \<Rightarrow> (Some user', st2))
              else (Some user, st1))))"

text \<open>An exception is raised inside the \<open>try\<close> of \<open>processOwner\<close>: by \<open>findOrCreate\<close>, or
  by the \<open>update\<close> of a row that was found and differs.\<close>

definition owner_resolution_throws :: "store_faults \<Rightarrow> jsval \<Rightarrow> store \<Rightarrow> bool" where
  "owner_resolution_throws fl ownerData st =
     (truthy ownerData \<and> truthy (member ownerData ''emailAddress'')
      \<and> truthy (member ownerData ''permissionId'')
      \<and> (case User_findOrCreate fl (member ownerData ''permissionId'')
                (member ownerData ''emailAddress'')
                (js_or (member ownerData ''displayName'') JNull)
                (js_or (member ownerData ''photoLink'') JNull) st of
            Inl e \<Rightarrow> True
          | Inr ((user, created), st1) \<Rightarrow>
              \<not> created \<and> owner_differs user ownerData
              \<and> (case User_update fl user (member ownerData ''emailAddress'')
                        (js_or (member ownerData ''displayName'') JNull)
                        (js_or (member ownerData ''photoLink'') JNull) st1 of
                    Inl e \<Rightarrow> True
                  | Inr r \<Rightarrow> False)))"


subsection \<open>Validation and sanitization\<close>

record validation =
  isValid :: bool
  v_errors :: "string list"
  v_warnings :: "string list"
  sanitizedData :: canonical

text \<open>\<open>fileData.owners?.[0]\<close>.\<close>

fun first_owner :: "jsval \<Rightarrow> jsval" where
  "first_owner (JArr xs) = (case xs of [] \<Rightarrow> JUndefined | x # _ \<Rightarrow> x)"
| "first_owner (JStr s) = (case s of [] \<Rightarrow> JUndefined | c # _ \<Rightarrow> JStr [c])"
| "first_owner (JObj ps) = field ps ''0''"
| "first_owner v = JUndefined"

definition string_or_null :: "runtime \<Rightarrow> jsval \<Rightarrow> js_error + string option" where
  "string_or_null rt v =
     (if truthy v then and_then (js_String rt v) (\<lambda>text. Inr (Some text)) else Inr None)"

definition date_or_null :: "runtime \<Rightarrow> jsval \<Rightarrow> js_error + int option option" where
  "date_or_null rt v =
     (if truthy v then and_then (new_Date rt v) (\<lambda>date. Inr (Some date)) else Inr None)"

text \<open>The object literal of \<open>sanitizeFileData\<close>, its properties evaluated in the order
  they are written: the first conversion that throws ends the evaluation.\<close>

definition sanitized_object :: "runtime \<Rightarrow> obj \<Rightarrow> js_error + canonical" where
  "sanitized_object rt fileData =
     and_then (js_String rt (field fileData ''id'')) (\<lambda>id.
     and_then (js_String rt (field fileData ''name'')) (\<lambda>name.
     and_then (js_String rt (field fileData ''mimeType'')) (\<lambda>mimeType.
     and_then (string_or_null rt (field fileData ''iconLink'')) (\<lambda>iconLink.
     and_then (string_or_null rt (field fileData ''webViewLink'')) (\<lambda>webViewLink.
     and_then (string_or_null rt (field fileData ''size'')) (\<lambda>size.
     and_then (date_or_null rt (field fileData ''createdTime'')) (\<lambda>createdTime.
     and_then (date_or_null rt (field fileData ''modifiedTime'')) (\<lambda>modifiedTime.
     and_then (string_or_null rt (field fileData ''version'')) (\<lambda>version.
     Inr \<lparr> f_id = id,
           f_name = name,
           f_mimeType = mimeType,
           f_iconLink = iconLink,
           f_webViewLink = webViewLink,
           f_size = size,
           f_shared = truthy (field fileData ''shared''),
           f_trashed = truthy (field fileData ''trashed''),
           f_createdTime = createdTime,
           f_modifiedTime = modifiedTime,
           f_version = version,
           f_owner = js_or (first_owner (field fileData ''owners'')) JNull,
           f_lastModifyingUser = js_or (field fileData ''lastModifyingUser'') JNull,
           f_permissions =
             (if isArray (field fileData ''permissions'') then field fileData ''permissions''
              else JArr []),
           f_capabilities = js_or (field fileData ''capabilities'') JNull,
           f_metadata = fileData,
           f_syncStatus = SyncSuccess,
           f_lastSyncAttempt = now rt,
           f_userId = None \<rparr>)))))))))"

text \<open>\<open>sanitizeFileData\<close>: the \<open>catch\<close> wraps the message of what the literal threw in a
  new error, and throws it.\<close>

definition sanitizeFileData :: "runtime \<Rightarrow> obj \<Rightarrow> js_error + canonical" where
  "sanitizeFileData rt fileData =
     (case sanitized_object rt fileData of
        Inl error \<Rightarrow> Inl (JsError (''Failed to sanitize file data: '' @ message error))
      | Inr sanitized \<Rightarrow> Inr sanitized)"

definition missing_required :: "obj \<Rightarrow> string \<Rightarrow> string list" where
  "missing_required fileData fld =
     (if \<not> truthy (field fileData fld) then [''Missing required field: '' @ fld] else [])"

definition invalid_id :: "obj \<Rightarrow> string list" where
  "invalid_id fileData =
     (if truthy (field fileData ''id'') \<and> typeof (field fileData ''id'') \<noteq> ''string''
      then [''Invalid id type: expected string, got '' @ typeof (field fileData ''id'')]
      else [])"

definition invalid_size :: "runtime \<Rightarrow> obj \<Rightarrow> js_error + string list" where
  "invalid_size rt fileData =
     (if truthy (field fileData ''size'')
      then and_then (number_isNaN rt (field fileData ''size'')) (\<lambda>nan.
           if nan
           then and_then (js_String rt (field fileData ''size'')) (\<lambda>text.
                Inr [''Invalid size format: '' @ text])
           else Inr [])
      else Inr [])"

definition invalid_date :: "runtime \<Rightarrow> obj \<Rightarrow> string \<Rightarrow> js_error + string list" where
  "invalid_date rt fileData dateField =
     (if truthy (field fileData dateField)
      then and_then (new_Date rt (field fileData dateField)) (\<lambda>date.
           if date = None
           then and_then (js_String rt (field fileData dateField)) (\<lambda>text.
                Inr [''Invalid '' @ dateField @ '' format: '' @ text])
           else Inr [])
      else Inr [])"

definition invalid_bool :: "obj \<Rightarrow> string \<Rightarrow> string list" where
  "invalid_bool fileData boolField =
     (if field fileData boolField \<noteq> JUndefined \<and> typeof (field fileData boolField) \<noteq> ''boolean''
      then [''Invalid '' @ boolField @ '' type: expected boolean, got ''
              @ typeof (field fileData boolField)]
      else [])"

definition invalid_url :: "obj \<Rightarrow> string \<Rightarrow> string list" where
  "invalid_url fileData urlField =
     (if truthy (field fileData urlField) \<and> typeof (field fileData urlField) \<noteq> ''string''
      then [''Invalid '' @ urlField @ '' type: expected string URL, got ''
              @ typeof (field fileData urlField)]
      else [])"

definition invalid_object :: "obj \<Rightarrow> string \<Rightarrow> string list" where
  "invalid_object fileData fld =
     (if truthy (field fileData fld) \<and> typeof (field fileData fld) \<noteq> ''object''
      then [''Invalid '' @ fld @ '' format: expected object'']
      else [])"

definition invalid_permissions :: "obj \<Rightarrow> string list" where
  "invalid_permissions fileData =
     (if truthy (field fileData ''permissions'') \<and> \<not> isArray (field fileData ''permissions'')
      then [''Invalid permissions format: expected array'']
      else [])"

definition missing_optional :: "obj \<Rightarrow> string \<Rightarrow> string list" where
  "missing_optional fileData fld =
     (if \<not> truthy (field fileData fld) then [''Missing optional field: '' @ fld] else [])"

text \<open>The errors of \<open>validateFileData\<close>, in the order the source pushes them. Of the
  checks, those of the size and of the two dates convert the field, and may throw.\<close>

definition validation_errors :: "runtime \<Rightarrow> obj \<Rightarrow> js_error + string list" where
  "validation_errors rt fileData =
     and_then (invalid_size rt fileData) (\<lambda>size_errors.
     and_then (invalid_date rt fileData ''createdTime'') (\<lambda>createdTime_errors.
     and_then (invalid_date rt fileData ''modifiedTime'') (\<lambda>modifiedTime_errors.
     Inr (concat (map (missing_required fileData) [''id'', ''name'', ''mimeType''])
          @ invalid_id fileData
          @ size_errors
          @ createdTime_errors @ modifiedTime_errors
          @ concat (map (invalid_bool fileData) [''shared'', ''trashed''])
          @ concat (map (invalid_url fileData) [''iconLink'', ''webViewLink''])
          @ invalid_object fileData ''owner''
          @ invalid_object fileData ''lastModifyingUser''
          @ invalid_permissions fileData))))"

text \<open>\<open>validateFileData\<close>: the checks, then the sanitized data of the result, computed
  whatever the checks found. It throws what a check or \<open>sanitizeFileData\<close> throws.\<close>

definition validateFileData :: "runtime \<Rightarrow> obj \<Rightarrow> js_error + validation" where
  "validateFileData rt fileData =
     and_then (validation_errors rt fileData) (\<lambda>errors.
     and_then (sanitizeFileData rt fileData) (\<lambda>sanitized.
     Inr \<lparr> isValid = (length errors = 0),
           v_errors = errors,
           v_warnings =
             concat (map (missing_optional fileData)
                       [''iconLink'', ''webViewLink'', ''size'', ''version'']),
           sanitizedData = sanitized \<rparr>))"

text \<open>The fields that \<open>validateFileData\<close> converts, in its checks or in
  \<open>sanitizeFileData\<close>; each of them only when it is truthy, or always (the first three).
  A value that does not convert is an object or an array, hence truthy: the call throws
  exactly when one of these fields does not convert.\<close>

definition converted_fields :: "string list" where
  "converted_fields =
     [''id'', ''name'', ''mimeType'', ''iconLink'', ''webViewLink'', ''size'',
      ''createdTime'', ''modifiedTime'', ''version'']"

definition conversion_throws :: "obj \<Rightarrow> bool" where
  "conversion_throws fileData =
     list_ex (\<lambda>fld. toPrimitive_throws (field fileData fld)) converted_fields"

subsection \<open>The batch\<close>

record error_entry =
  fileId :: jsval
  error :: string
  validationErrors :: "string option"

record results =
  success :: nat
  failed :: nat
  errors :: "error_entry list"
  validationIssues :: "string list"
  usersProcessed :: nat

text \<open>
  The \<open>try\<close> block of one item. The result is the exception thrown, if any, with the
  counters and the store as they are at that point.
\<close>

definition try_item ::
  "runtime \<Rightarrow> store_faults \<Rightarrow> obj \<Rightarrow> results \<times> store \<Rightarrow> js_error option \<times> results \<times> store" where
  "try_item rt fl fileData rs =
     (case rs of (res, st) \<Rightarrow>
      (case processOwner fl (field fileData ''owner'') st of (user, st1) \<Rightarrow>
       (let res1 = (if user \<noteq> None then res \<lparr> usersProcessed := usersProcessed res + 1 \<rparr> else res)
        in case validateFileData rt fileData of
             Inl e \<Rightarrow> (Some e, res1, st1)
           | Inr validation \<Rightarrow>
               if \<not> isValid validation
               then (Some (JsError (''Validation failed: '' @ join '', '' (v_errors validation))),
                     res1, st1)
               else
                 (case File_upsert fl
                         (Sanitized ((sanitizedData validation) \<lparr> f_userId := map_option uid user \<rparr>))
                         st1 of
                    Inl e \<Rightarrow> (Some e, res1, st1)
                  | Inr st2 \<Rightarrow>
                      (let res2 = res1 \<lparr> success := success res1 + 1 \<rparr>
                       in case user of
                            None \<Rightarrow> (None, res2, st2)
                          | Some u \<Rightarrow>
                              (case User_updateStats fl u st2 of
                                 Inl e \<Rightarrow> (Some e, res2, st2)
                               | Inr st3 \<Rightarrow> (None, res2, st3)))))))"

text \<open>The entry of the report and the degraded object that the \<open>catch\<close> block builds
  from the exception it caught.\<close>

definition error_entry_of :: "obj \<Rightarrow> js_error \<Rightarrow> error_entry" where
  "error_entry_of fileData e =
     \<lparr> fileId = field fileData ''id'', error = message e,
       validationErrors =
         (if js_includes (message e) ''Validation failed'' then Some (message e) else None) \<rparr>"

definition degraded_of :: "runtime \<Rightarrow> obj \<Rightarrow> js_error \<Rightarrow> degraded" where
  "degraded_of rt fileData e =
     \<lparr> d_id = field fileData ''id'', d_metadata = fileData, d_syncStatus = SyncError,
       d_lastSyncAttempt = now rt,
       d_errorLog = \<lparr> l_error = message e, l_timestamp = now rt, l_details = e \<rparr> \<rparr>"

text \<open>The \<open>catch\<close> block of one item: it counts, records and upserts the degraded row; an
  exception of that upsert is not caught.\<close>

definition catch_item ::
  "runtime \<Rightarrow> store_faults \<Rightarrow> obj \<Rightarrow> js_error \<Rightarrow> results \<times> store \<Rightarrow> js_error option \<times> results \<times> store" where
  "catch_item rt fl fileData e rs =
     (case rs of (res, st) \<Rightarrow>
      (let res' = res \<lparr> failed := failed res + 1,
                        errors := errors res @ [error_entry_of fileData e] \<rparr>
       in case File_upsert fl (Degraded (degraded_of rt fileData e)) st of
            Inl e2 \<Rightarrow> (Some e2, res', st)
          | Inr st' \<Rightarrow> (None, res', st')))"

text \<open>One callback of \<open>batch.map\<close>: the result is the rejection of its promise, if any.\<close>

definition processItem ::
  "runtime \<Rightarrow> store_faults \<Rightarrow> obj \<Rightarrow> results \<times> store \<Rightarrow> js_error option \<times> results \<times> store" where
  "processItem rt fl fileData rs =
     (case try_item rt fl fileData rs of
        (None, res, st) \<Rightarrow> (None, res, st)
      | (Some e, res, st) \<Rightarrow> catch_item rt fl fileData e (res, st))"

text \<open>
  \<open>Promise.all(batch.map(...))\<close>. The callbacks are started together and interleave at
  their \<open>await\<close>s; the model runs them one after the other, in the order of the batch.
  Every callback runs to its end, also when another one has rejected; \<open>Promise.all\<close>
  rejects with the first rejection. Across the items of one batch, the order of the
  store calls and of the entries of \<open>errors\<close>, and which rejection is the first, are
  therefore those of the model and not those of the code: what is proved of a batch of
  several items speaks of counts, of sets of ids and of multisets of upserts, and of
  order within one item only.
\<close>

fun processBatch ::
  "runtime \<Rightarrow> store_faults \<Rightarrow> obj list \<Rightarrow> results \<times> store \<Rightarrow> js_error option \<times> results \<times> store" where
  "processBatch rt fl [] rs = (None, rs)"
| "processBatch rt fl (fileData # rest) rs =
     (case processItem rt fl fileData rs of
        (rej, rs1) \<Rightarrow>
          (case processBatch rt fl rest rs1 of
             (rej', rs2) \<Rightarrow> ((case rej of Some e \<Rightarrow> Some e | None \<Rightarrow> rej'), rs2)))"

definition batchSize :: nat where
  "batchSize = 500"

text \<open>The \<open>for\<close> loop over the slices of \<open>batchSize\<close> records; a rejected slice ends it, and
  the outer \<open>catch\<close> rethrows.\<close>

function processSlices ::
  "runtime \<Rightarrow> store_faults \<Rightarrow> obj list \<Rightarrow> results \<times> store \<Rightarrow> (js_error + results) \<times> store" where
  "processSlices rt fl fs rs =
     (if fs = [] then (Inr (fst rs), snd rs)
      else
        (case processBatch rt fl (take batchSize fs) rs of
           (Some e, res, st) \<Rightarrow> (Inl e, st)
         | (None, res, st) \<Rightarrow> processSlices rt fl (drop batchSize fs) (res, st)))"
  by pat_completeness auto
termination
  by (relation "measure (\<lambda>(rt, fl, fs, rs). length fs)") (auto simp: batchSize_def)

declare processSlices.simps [simp del]

definition initial_results :: results where
  "initial_results = \<lparr> success = 0, failed = 0, errors = [], validationIssues = [], usersProcessed = 0 \<rparr>"

text \<open>\<open>processFiles\<close>: the report, or the exception it throws, and the store left behind.\<close>

definition processFiles ::
  "runtime \<Rightarrow> store_faults \<Rightarrow> obj list \<Rightarrow> store \<Rightarrow> (js_error + results) \<times> store" where
  "processFiles rt fl fs st = processSlices rt fl fs (initial_results, st)"

section \<open>The authentication manager and the provider client\<close>

subsection \<open>State and collaborators\<close>

record oauth_client =
  clientId :: jsval
  clientSecret :: jsval
  redirectUri :: jsval
  credentials :: jsval

datatype event =
    Authenticated oauth_client
  | AuthenticationRequired
  | AuthenticationFailed "js_error option"
  | TokensUpdated jsval

text \<open>The parameters of \<open>drive.files.list\<close>; a parameter that is \<open>undefined\<close> or not given
  is \<open>None\<close> or \<open>JUndefined\<close>.\<close>

record list_params =
  p_pageSize :: jsval
  p_pageToken :: jsval
  p_fields :: "string option"
  p_orderBy :: "string option"
  p_q :: "string option"

text \<open>\<open>response.data\<close> of a listing.\<close>

record list_data =
  data_files :: jsval
  data_nextPageToken :: jsval

datatype api_call = RefreshToken jsval | GetToken jsval | FilesList list_params

text \<open>
  Modelled from the spec: \<open>BaseService\<close>, which \<open>GoogleService\<close> extends, is not among
  the sources. Of it the model has the flag \<open>initialized\<close>, which \<open>markInitialized\<close> sets
  and \<open>waitForInit\<close> waits for, and the events emitted by \<open>emit\<close>. The other fields are
  the service object of the source (\<open>auth\<close>, \<open>drive\<close>, \<open>isAuthenticated\<close>) and what it
  acts on: the rows of the settings store by key, and the calls made to the provider,
  oldest first.
\<close>

record service =
  auth :: "oauth_client option"
  drive :: bool
  isAuthenticated :: bool
  initialized :: bool
  settings :: "(string \<times> jsval) list"
  events :: "event list"
  calls :: "api_call list"

text \<open>What the settings store and the provider answer: whether a settings call throws,
  and the tokens or the listing the provider returns, or what it throws.\<close>

record collaborators =
  get_throws :: "service \<Rightarrow> string \<Rightarrow> js_error option"
  put_throws :: "service \<Rightarrow> string \<Rightarrow> jsval \<Rightarrow> js_error option"
  refreshToken :: "service \<Rightarrow> jsval \<Rightarrow> js_error + jsval"
  getToken :: "service \<Rightarrow> jsval \<Rightarrow> js_error + jsval"
  files_list :: "service \<Rightarrow> list_params \<Rightarrow> js_error + list_data"

text \<open>Modelled from the spec: \<open>system-settings.service\<close> is not among the sources. The spec
  gives it "key/value get/update"; \<open>systemSettings_get\<close> is \<open>(await get(key))?.value\<close>.\<close>

definition systemSettings_get :: "collaborators \<Rightarrow> string \<Rightarrow> service \<Rightarrow> js_error + jsval" where
  "systemSettings_get co key s =
     (case get_throws co s key of
        Some e \<Rightarrow> Inl e
      | None \<Rightarrow> Inr (case map_of (settings s) key of None \<Rightarrow> JUndefined | Some v \<Rightarrow> v))"

text \<open>Modelled from the spec: \<open>update(key, value)\<close> of the same service; it throws, or
  writes the value of the row of that key.\<close>

definition systemSettings_update :: "collaborators \<Rightarrow> string \<Rightarrow> jsval \<Rightarrow> service \<Rightarrow> js_error + service" where
  "systemSettings_update co key v s =
     (case put_throws co s key v of
        Some e \<Rightarrow> Inl e
      | None \<Rightarrow> Inr (s \<lparr> settings := AList.update key v (settings s) \<rparr>))"

definition emit :: "event \<Rightarrow> service \<Rightarrow> service" where
  "emit ev s = s \<lparr> events := events s @ [ev] \<rparr>"

definition called :: "api_call \<Rightarrow> service \<Rightarrow> service" where
  "called c s = s \<lparr> calls := calls s @ [c] \<rparr>"

fun is_refresh :: "api_call \<Rightarrow> bool" where
  "is_refresh (RefreshToken r) = True"
| "is_refresh c = False"

text \<open>The token record as it is in the settings store.\<close>

definition stored_tokens :: "service \<Rightarrow> jsval" where
  "stored_tokens s = (case map_of (settings s) ''google_tokens'' of None \<Rightarrow> JUndefined | Some v \<Rightarrow> v)"

definition type_error :: "string \<Rightarrow> js_error" where
  "type_error what = JsError (''Cannot read properties of null (reading '' @ what @ '')'')"

subsection \<open>Object spread\<close>

text \<open>The own enumerable properties that \<open>{...v}\<close> copies.\<close>

fun own_props :: "jsval \<Rightarrow> obj" where
  "own_props (JObj ps) = ps"
| "own_props (JArr xs) = zip (map digits_of [0..<length xs]) xs"
| "own_props (JStr s) = zip (map digits_of [0..<length s]) (map (\<lambda>c. JStr [c]) s)"
| "own_props v = []"

text \<open>Writing properties into an object under construction: a key that is there keeps
  its place and takes the new value, a new key goes to the end.\<close>

definition assign :: "obj \<Rightarrow> obj \<Rightarrow> obj" where
  "assign target source = fold (\<lambda>(k, v). AList.update k v) source target"

text \<open>\<open>{...a, ...b, refresh_token: r}\<close>, the merge of \<open>loadSavedTokens\<close> and
  \<open>setCredentials\<close>.\<close>

definition merge_tokens :: "jsval \<Rightarrow> jsval \<Rightarrow> jsval \<Rightarrow> obj" where
  "merge_tokens a b r =
     assign (assign (assign [] (own_props a)) (own_props b)) [(''refresh_token'', r)]"

subsection \<open>Tokens\<close>

definition loadTokensFromSettings :: "collaborators \<Rightarrow> service \<Rightarrow> jsval" where
  "loadTokensFromSettings co s =
     (case systemSettings_get co ''google_tokens'' s of
        Inl e \<Rightarrow> JNull
      | Inr v \<Rightarrow> js_or v JNull)"

definition saveTokensToSettings :: "collaborators \<Rightarrow> jsval \<Rightarrow> service \<Rightarrow> js_error + service" where
  "saveTokensToSettings co tokens s = systemSettings_update co ''google_tokens'' tokens s"

text \<open>\<open>now >= expiryDate\<close>: false for an invalid date.\<close>

definition expired :: "runtime \<Rightarrow> int option \<Rightarrow> bool" where
  "expired rt expiryDate = (case expiryDate of None \<Rightarrow> False | Some t \<Rightarrow> t \<le> now rt)"

text \<open>\<open>loadSavedTokens\<close>: the result and the service afterwards. It never throws: what
  \<open>new Date(tokens.expiry_date)\<close> throws is caught by the outer \<open>catch\<close>.\<close>

definition loadSavedTokens :: "collaborators \<Rightarrow> runtime \<Rightarrow> service \<Rightarrow> bool \<times> service" where
  "loadSavedTokens co rt s =
     (let tokens = loadTokensFromSettings co s
      in if \<not> truthy tokens then (False, s \<lparr> isAuthenticated := False \<rparr>)
         else
           (case new_Date rt (member tokens ''expiry_date'') of
              Inl thrown \<Rightarrow> (False, s \<lparr> isAuthenticated := False \<rparr>)
            | Inr expiryDate \<Rightarrow>
         if expired rt expiryDate \<and> truthy (member tokens ''refresh_token'')
         then
           (case auth s of
              None \<Rightarrow> (False, s \<lparr> isAuthenticated := False \<rparr>)
            | Some a \<Rightarrow>
                (let s1 = called (RefreshToken (member tokens ''refresh_token'')) s
                 in case refreshToken co s (member tokens ''refresh_token'') of
                      Inl refreshError \<Rightarrow> (False, s1 \<lparr> isAuthenticated := False \<rparr>)
                    | Inr refreshed \<Rightarrow>
                        (let mergedTokens = merge_tokens tokens refreshed (member tokens ''refresh_token'')
                         in case saveTokensToSettings co (JObj mergedTokens) s1 of
                              Inl refreshError \<Rightarrow> (False, s1 \<lparr> isAuthenticated := False \<rparr>)
                            | Inr s2 \<Rightarrow>
                                (let a' = a \<lparr> credentials := JObj mergedTokens \<rparr>
                                 in (True, emit (Authenticated a')
                                             (s2 \<lparr> auth := Some a', isAuthenticated := True \<rparr>))))))
         else
           (case auth s of
              None \<Rightarrow> (False, s \<lparr> isAuthenticated := False \<rparr>)
            | Some a \<Rightarrow>
                (let a' = a \<lparr> credentials := tokens \<rparr>
                 in (True, emit (Authenticated a') (s \<lparr> auth := Some a', isAuthenticated := True \<rparr>))))))"

text \<open>The listing of one file by which \<open>verifyAndInitializeAuth\<close> tries the credentials.\<close>

definition probe_params :: list_params where
  "probe_params =
     \<lparr> p_pageSize = JNum 1, p_pageToken = JUndefined, p_fields = None, p_orderBy = None, p_q = None \<rparr>"

text \<open>\<open>this.drive.files.list(params)\<close>; without a drive handle the property access throws.\<close>

definition drive_files_list ::
  "collaborators \<Rightarrow> list_params \<Rightarrow> service \<Rightarrow> (js_error + list_data) \<times> service" where
  "drive_files_list co params s =
     (if \<not> drive s then (Inl (type_error ''files''), s)
      else (files_list co s params, called (FilesList params) s))"

definition verifyAndInitializeAuth :: "collaborators \<Rightarrow> runtime \<Rightarrow> service \<Rightarrow> bool \<times> service" where
  "verifyAndInitializeAuth co rt s =
     (case loadSavedTokens co rt s of
        (loaded, s1) \<Rightarrow>
          (if \<not> loaded then (False, emit AuthenticationRequired s1)
           else
             (case auth s1 of
                None \<Rightarrow> (False, emit (AuthenticationFailed None) s1)
              | Some a \<Rightarrow>
                  (if \<not> truthy (credentials a) then (False, emit AuthenticationRequired s1)
                   else
                     (case drive_files_list co probe_params s1 of
                        (Inr response, s2) \<Rightarrow>
                          (True, emit (Authenticated a) (s2 \<lparr> isAuthenticated := True \<rparr>))
                      | (Inl apiError, s2) \<Rightarrow>
                          (case systemSettings_update co ''google_tokens'' JNull s2 of
                             Inl e \<Rightarrow> (False, emit (AuthenticationFailed None) s2)
                           | Inr s3 \<Rightarrow>
                               (False, emit AuthenticationRequired
                                         (emit (AuthenticationFailed (Some apiError))
                                            (s3 \<lparr> isAuthenticated := False \<rparr>)))))))))"

text \<open>The listener of the \<open>tokens\<close> event of the client, registered by \<open>initialize\<close>. The
  result is the rejection of the listener, if any. It is an operation of its own: when
  the client raises the event is the library's business, and \<open>refreshToken\<close> and
  \<open>getToken\<close> of the model return their response without running the listener.\<close>

definition on_tokens :: "collaborators \<Rightarrow> jsval \<Rightarrow> service \<Rightarrow> js_error option \<times> service" where
  "on_tokens co tokens s =
     (if tokens = JUndefined \<or> tokens = JNull then (Some (type_error ''refresh_token''), s)
      else if truthy (member tokens ''refresh_token'') \<or> truthy (member tokens ''access_token'')
      then
        (let currentTokens = loadTokensFromSettings co s;
             mergedTokens =
               assign (assign (assign [] (own_props currentTokens)) (own_props tokens))
                 [(''access_token'', js_or (member tokens ''access_token'') (member currentTokens ''access_token'')),
                  (''refresh_token'', js_or (member tokens ''refresh_token'') (member currentTokens ''refresh_token'')),
                  (''expiry_date'', js_or (member tokens ''expiry_date'') (member currentTokens ''expiry_date''))]
         in case saveTokensToSettings co (JObj mergedTokens) s of
              Inl e \<Rightarrow> (Some e, s)
            | Inr s1 \<Rightarrow> (None, emit (TokensUpdated tokens) s1))
      else (None, emit (TokensUpdated tokens) s))"

text \<open>\<open>setCredentials(code)\<close>: the merged tokens it returns, or the exception it rethrows.\<close>

definition setCredentials ::
  "collaborators \<Rightarrow> jsval \<Rightarrow> service \<Rightarrow> (js_error + jsval) \<times> service" where
  "setCredentials co code s =
     (case auth s of
        None \<Rightarrow> (Inl (type_error ''getToken''), s \<lparr> isAuthenticated := False \<rparr>)
      | Some a \<Rightarrow>
          (let s1 = called (GetToken code) s
           in case getToken co s code of
                Inl e \<Rightarrow> (Inl e, s1 \<lparr> isAuthenticated := False \<rparr>)
              | Inr tokens \<Rightarrow>
                  (let existingTokens = loadTokensFromSettings co s1
                   in if tokens = JUndefined \<or> tokens = JNull
                      then (Inl (type_error ''refresh_token''), s1 \<lparr> isAuthenticated := False \<rparr>)
                      else
                        (let mergedTokens =
                               merge_tokens existingTokens tokens
                                 (js_or (member tokens ''refresh_token'')
                                    (member existingTokens ''refresh_token''));
                             s2 = s1 \<lparr> auth := Some (a \<lparr> credentials := JObj mergedTokens \<rparr>) \<rparr>
                         in case saveTokensToSettings co (JObj mergedTokens) s2 of
                              Inl e \<Rightarrow> (Inl e, s2 \<lparr> isAuthenticated := False \<rparr>)
                            | Inr s3 \<Rightarrow>
                                (Inr (JObj mergedTokens),
                                 emit (Authenticated (a \<lparr> credentials := JObj mergedTokens \<rparr>))
                                   (s3 \<lparr> isAuthenticated := True \<rparr>))))))"

subsection \<open>Initialization\<close>

definition default_redirect :: jsval where
  "default_redirect = JStr ''http://localhost:3000/auth/google/callback''"



subsection \<open>Listing\<close>

record list_args =
  a_pageSize :: jsval
  a_nextPageToken :: jsval
  a_query :: jsval
  a_filters :: jsval

record listing =
  l_files :: jsval
  l_nextPageToken :: jsval
  l_hasMore :: bool

text \<open>\<open>new Date(v).toISOString()\<close>: a \<open>RangeError\<close> for an invalid date.\<close>

definition toISOString :: "runtime \<Rightarrow> jsval \<Rightarrow> js_error + string" where
  "toISOString rt v =
     and_then (new_Date rt v) (\<lambda>date.
       case date of
         None \<Rightarrow> Inl (JsError ''Invalid time value'')
       | Some t \<Rightarrow> Inr (isoString rt t))"

text \<open>The \<open>queryString\<close> of \<open>listFiles\<close>. The clause of the filter is
  \<open>modifiedTime > '<timestamp>'\<close>, the timestamp between single quotes (character
  \<open>0x27\<close>).\<close>

definition queryString :: "runtime \<Rightarrow> jsval \<Rightarrow> jsval \<Rightarrow> js_error + string" where
  "queryString rt query filters =
     and_then
       (if truthy (member filters ''modifiedTime'')
        then and_then (toISOString rt (member filters ''modifiedTime'')) (\<lambda>stamp.
             Inr (''modifiedTime > '' @ [CHR 0x27] @ stamp @ [CHR 0x27]))
        else Inr [])
       (\<lambda>qs. if truthy query
             then and_then (js_String rt query) (\<lambda>text.
                  Inr (qs @ (if qs \<noteq> [] then '' and '' @ text else text)))
             else Inr qs)"

text \<open>The \<open>q\<close> made of it: \<open>queryString || undefined\<close>.\<close>

definition q_of :: "string \<Rightarrow> string option" where
  "q_of qs = (if qs \<noteq> [] then Some qs else None)"

definition default_null :: "jsval \<Rightarrow> jsval" where
  "default_null v = (if v = JUndefined then JNull else v)"

definition list_fields :: string where
  "list_fields = ''nextPageToken, files(id, name, mimeType, modifiedTime, owners, size)''"

text \<open>The \<open>params\<close> of \<open>listFiles\<close>.\<close>

definition listing_params :: "list_args \<Rightarrow> string \<Rightarrow> list_params" where
  "listing_params args qs =
     \<lparr> p_pageSize = a_pageSize args,
       p_pageToken = default_null (a_nextPageToken args),
       p_fields = Some list_fields,
       p_orderBy = Some ''modifiedTime desc'',
       p_q = q_of qs \<rparr>"

text \<open>\<open>listFiles\<close>. \<open>None\<close>: the call is still waiting for the initialization. Otherwise
  the value it returns or the exception it rethrows.\<close>

definition listFiles ::
  "collaborators \<Rightarrow> runtime \<Rightarrow> list_args \<Rightarrow> service \<Rightarrow> (js_error + listing) option \<times> service" where
  "listFiles co rt args s =
     (if \<not> initialized s then (None, s)
      else
        (case queryString rt (default_null (a_query args)) (default_null (a_filters args)) of
           Inl e \<Rightarrow> (Some (Inl e), s)
         | Inr qs \<Rightarrow>
             (case drive_files_list co (listing_params args qs) s of
                (Inl e, s1) \<Rightarrow> (Some (Inl e), s1)
              | (Inr d, s1) \<Rightarrow>
                  (Some (Inr \<lparr> l_files = data_files d,
                               l_nextPageToken = data_nextPageToken d,
                               l_hasMore = truthy (data_nextPageToken d) \<rparr>), s1))))"

section \<open>Sample values\<close>

text \<open>
  A runtime for the worked examples. It agrees with Node on the values the examples
  use: one instant, its ISO form, and the strings of decimal digits as the numeric
  strings (the examples have no other numeric string, and no number beyond the safe
  integers).
\<close>

definition sample_runtime :: runtime where
  "sample_runtime =
     \<lparr> now = 1704067200000,
       parseDate = (\<lambda>s. if s = ''2024-01-01T00:00:00.000Z'' then Some 1704067200000 else None),
       isoString = (\<lambda>t. if t = 1704067200000 then ''2024-01-01T00:00:00.000Z'' else []),
       numericString = (\<lambda>s. list_all (\<lambda>c. c \<in> set ''0123456789'') s),
       largeNumberString = (\<lambda>n. []) \<rparr>"

definition no_faults :: store_faults where
  "no_faults =
     \<lparr> findOrCreate_throws = (\<lambda>st pid. None), update_throws = (\<lambda>st u. None),
       updateStats_throws = (\<lambda>st u. None), upsert_throws = (\<lambda>st a. None) \<rparr>"

definition empty_store :: store where
  "empty_store = \<lparr> users = [], next_uid = 1, files = [], upserts = [] \<rparr>"

text \<open>A provider that grants a refresh with a new access token and no refresh token, and
  one that rejects the refresh; a service configured with an expired token record.\<close>

definition provider_ok :: collaborators where
  "provider_ok =
     \<lparr> get_throws = (\<lambda>s key. None),
       put_throws = (\<lambda>s key v. None),
       refreshToken = (\<lambda>s r. Inr (JObj [(''access_token'', JStr ''at-2''),
                                          (''expiry_date'', JNum 1704070800000)])),
       getToken = (\<lambda>s code. Inr (JObj [(''access_token'', JStr ''at-3'')])),
       files_list = (\<lambda>s p. Inr \<lparr> data_files = JArr [], data_nextPageToken = JStr ''page-2'' \<rparr>) \<rparr>"

definition refresh_down :: collaborators where
  "refresh_down = provider_ok \<lparr> refreshToken := (\<lambda>s r. Inl (JsError ''invalid_grant'')) \<rparr>"

definition google_settings :: jsval where
  "google_settings = JObj [(''clientId'', JStr ''client''), (''clientSecret'', JStr ''secret'')]"

definition old_tokens :: jsval where
  "old_tokens =
     JObj [(''access_token'', JStr ''at-1''), (''refresh_token'', JStr ''rt-1''),
           (''expiry_date'', JNum 1000)]"

definition new_tokens :: jsval where
  "new_tokens =
     JObj [(''access_token'', JStr ''at-2''), (''refresh_token'', JStr ''rt-1''),
           (''expiry_date'', JNum 1704070800000)]"


definition sample_client :: oauth_client where
  "sample_client =
     \<lparr> clientId = JStr ''client'', clientSecret = JStr ''secret'',
       redirectUri = default_redirect, credentials = JObj [] \<rparr>"

definition expired_service :: service where
  "expired_service =
     \<lparr> auth = Some sample_client, drive = True, isAuthenticated = False, initialized = False,
       settings = [(''google'', google_settings), (''google_tokens'', old_tokens)],
       events = [], calls = [] \<rparr>"

definition sample_args :: list_args where
  "sample_args =
     \<lparr> a_pageSize = JNum 100, a_nextPageToken = JUndefined, a_query = JStr ''trashed = false'',
       a_filters = JObj [(''modifiedTime'', JStr ''2024-01-01T00:00:00.000Z'')] \<rparr>"

text \<open>A provider on its last page, the service once initialized, and a service with the
  \<open>google\<close> setting only.\<close>

definition last_page :: collaborators where
  "last_page =
     provider_ok \<lparr> files_list := (\<lambda>s p. Inr \<lparr> data_files = JArr [], data_nextPageToken = JUndefined \<rparr>) \<rparr>"

definition ready_service :: service where
  "ready_service = expired_service \<lparr> initialized := True \<rparr>"


text \<open>Arguments whose filter is given and is no date. A settings service whose read of
  \<open>google_tokens\<close> fails, over a provider that returns no refresh token; the tokens
  that \<open>getToken\<close> returns there.\<close>

definition yesterday_args :: list_args where
  "yesterday_args = sample_args \<lparr> a_filters := JObj [(''modifiedTime'', JStr ''yesterday'')] \<rparr>"

definition read_down :: collaborators where
  "read_down =
     provider_ok \<lparr> get_throws :=
       (\<lambda>s key. if key = ''google_tokens'' then Some (JsError ''db down'') else None) \<rparr>"

definition granted_tokens :: jsval where
  "granted_tokens = JObj [(''access_token'', JStr ''at-3'')]"

text \<open>Records: a valid one with a resolvable owner, one without \<open>mimeType\<close>, one
  whose \<open>size\<close> is no number, one with an empty \<open>id\<close> and the size \<open>0\<close>, one with an
  empty \<open>id\<close> whose \<open>name\<close> is an object with a \<open>toString\<close> property, and one with an
  owner and without \<open>mimeType\<close>. Two owners with the same \<open>permissionId\<close> and different
  display names.\<close>

definition record_a :: obj where
  "record_a =
     [(''id'', JStr ''a''), (''name'', JStr ''report''), (''mimeType'', JStr ''text/plain''),
      (''owner'', JObj [(''emailAddress'', JStr ''ann@example.org''), (''permissionId'', JStr ''p1'')])]"

definition record_b :: obj where
  "record_b = [(''id'', JStr ''b''), (''name'', JStr ''notes'')]"

definition record_c :: obj where
  "record_c =
     [(''id'', JStr ''c''), (''name'', JStr ''sheet''), (''mimeType'', JStr ''text/csv''),
      (''size'', JStr ''abc'')]"

definition record_d :: obj where
  "record_d =
     [(''id'', JStr []), (''name'', JStr ''draft''), (''mimeType'', JStr ''text/plain''),
      (''size'', JNum 0)]"

definition record_e :: obj where
  "record_e =
     [(''id'', JStr []), (''name'', JObj [(''toString'', JNum 1)]), (''mimeType'', JStr ''m'')]"

definition record_f :: obj where
  "record_f =
     [(''id'', JStr ''f''), (''name'', JStr ''memo''),
      (''owner'', JObj [(''emailAddress'', JStr ''ann@example.org''), (''permissionId'', JStr ''p1'')])]"





text \<open>Stores that fail: in \<open>findOrCreate\<close>, in every \<open>File.upsert\<close>, in the upsert of a
  sanitized row only, in \<open>updateStats\<close> only.\<close>

definition findOrCreate_down :: store_faults where
  "findOrCreate_down = no_faults \<lparr> findOrCreate_throws := (\<lambda>st pid. Some (JsError ''db down'')) \<rparr>"



definition updateStats_down :: store_faults where
  "updateStats_down = no_faults \<lparr> updateStats_throws := (\<lambda>st u. Some (JsError ''db down'')) \<rparr>"

section \<open>Properties of the batch processor\<close>

subsection \<open>Conversions\<close>

lemma and_then_simps:
  "and_then (Inl e) k = Inl e"
  "and_then (Inr x) k = k x"
  "and_then (if c then a else b) k = (if c then and_then a k else and_then b k)"
  by (simp_all add: and_then_def)

lemma and_then_Inr: "and_then r k = Inr y \<longleftrightarrow> (\<exists>x. r = Inr x \<and> k x = Inr y)"
  by (cases r) (simp_all add: and_then_def)

lemma and_then_Inl: "and_then r k = Inl e \<longleftrightarrow> r = Inl e \<or> (\<exists>x. r = Inr x \<and> k x = Inl e)"
  by (cases r) (simp_all add: and_then_def)

lemma throw_or_return:
  "(if c then Inl e else Inr x) = Inr y \<longleftrightarrow> \<not> c \<and> x = y"
  "(if c then Inl e else Inr x) = Inl e' \<longleftrightarrow> c \<and> e = e'"
  by auto

lemma toPrimitive_throws_truthy: "toPrimitive_throws v \<Longrightarrow> truthy v"
  by (cases v) simp_all

lemma string_or_null_eq:
  "string_or_null rt v =
     (if toPrimitive_throws v then Inl conversion_error
      else Inr (if truthy v then Some (string_of rt v) else None))"
  by (simp add: string_or_null_def js_String_def and_then_simps toPrimitive_throws_truthy)

lemma date_or_null_eq:
  "date_or_null rt v =
     (if toPrimitive_throws v then Inl conversion_error
      else Inr (if truthy v then Some (time_of rt v) else None))"
  by (simp add: date_or_null_def new_Date_def and_then_simps toPrimitive_throws_truthy)

lemma invalid_size_eq:
  "invalid_size rt fileData =
     (if toPrimitive_throws (field fileData ''size'') then Inl conversion_error
      else Inr (if truthy (field fileData ''size'') \<and> nan_of rt (field fileData ''size'')
                then [''Invalid size format: '' @ string_of rt (field fileData ''size'')]
                else []))"
  by (simp add: invalid_size_def number_isNaN_def js_String_def and_then_simps
      toPrimitive_throws_truthy)

lemma invalid_date_eq:
  "invalid_date rt fileData dateField =
     (if toPrimitive_throws (field fileData dateField) then Inl conversion_error
      else Inr (if truthy (field fileData dateField) \<and> time_of rt (field fileData dateField) = None
                then [''Invalid '' @ dateField @ '' format: '' @ string_of rt (field fileData dateField)]
                else []))"
  by (simp add: invalid_date_def new_Date_def js_String_def and_then_simps
      toPrimitive_throws_truthy)

subsection \<open>Validation\<close>

lemma typeof_string: "typeof v = ''string'' \<Longrightarrow> \<exists>s. v = JStr s"
  by (cases v) auto

lemma sanitized_object_throws:
  "sanitized_object rt fileData = Inl e \<Longrightarrow> e = conversion_error"
  by (auto simp: sanitized_object_def js_String_def string_or_null_eq date_or_null_eq
      and_then_Inl throw_or_return)

lemma sanitized_object_returns:
  "sanitized_object rt fileData = Inr c \<Longrightarrow>
     f_id c = string_of rt (field fileData ''id'')
     \<and> f_syncStatus c = SyncSuccess \<and> f_userId c = None \<and> f_metadata c = fileData
     \<and> f_lastSyncAttempt c = now rt"
  by (auto simp: sanitized_object_def js_String_def string_or_null_eq date_or_null_eq
      and_then_Inr throw_or_return)

lemma sanitized_object_Inl_iff:
  "(\<exists>e. sanitized_object rt fileData = Inl e) \<longleftrightarrow>
     list_ex (\<lambda>fld. toPrimitive_throws (field fileData fld))
       [''id'', ''name'', ''mimeType'', ''iconLink'', ''webViewLink'', ''size'',
        ''createdTime'', ''modifiedTime'', ''version'']"
  by (simp add: sanitized_object_def js_String_def string_or_null_eq date_or_null_eq
      and_then_simps)

lemma sanitize_throws:
  "sanitizeFileData rt fileData = Inl e \<Longrightarrow>
     e = JsError (''Failed to sanitize file data: '' @ message conversion_error)"
  by (auto simp: sanitizeFileData_def split: sum.splits dest: sanitized_object_throws)

lemma sanitize_returns:
  "sanitizeFileData rt fileData = Inr c \<Longrightarrow>
     f_id c = string_of rt (field fileData ''id'')
     \<and> f_syncStatus c = SyncSuccess \<and> f_userId c = None \<and> f_metadata c = fileData
     \<and> f_lastSyncAttempt c = now rt"
  using sanitized_object_returns [of rt fileData c]
  by (simp add: sanitizeFileData_def split: sum.splits)

lemma sanitize_Inl_iff:
  "(\<exists>e. sanitizeFileData rt fileData = Inl e) \<longleftrightarrow>
     list_ex (\<lambda>fld. toPrimitive_throws (field fileData fld))
       [''id'', ''name'', ''mimeType'', ''iconLink'', ''webViewLink'', ''size'',
        ''createdTime'', ''modifiedTime'', ''version'']"
  using sanitized_object_Inl_iff [of rt fileData]
  by (cases "sanitized_object rt fileData") (simp_all add: sanitizeFileData_def)

lemma validation_errors_throws:
  "validation_errors rt fileData = Inl e \<Longrightarrow> e = conversion_error"
  by (auto simp: validation_errors_def invalid_size_eq invalid_date_eq and_then_Inl
      throw_or_return)

lemma validation_errors_Inl_iff:
  "(\<exists>e. validation_errors rt fileData = Inl e) \<longleftrightarrow>
     list_ex (\<lambda>fld. toPrimitive_throws (field fileData fld)) [''size'', ''createdTime'', ''modifiedTime'']"
  by (simp add: validation_errors_def invalid_size_eq invalid_date_eq and_then_simps)

lemma validation_errors_eq:
  "validation_errors rt fileData =
     (if toPrimitive_throws (field fileData ''size'')
         \<or> toPrimitive_throws (field fileData ''createdTime'')
         \<or> toPrimitive_throws (field fileData ''modifiedTime'')
      then Inl conversion_error
      else Inr
       (concat (map (missing_required fileData) [''id'', ''name'', ''mimeType''])
       @ invalid_id fileData
       @ (if truthy (field fileData ''size'') \<and> nan_of rt (field fileData ''size'')
          then [''Invalid size format: '' @ string_of rt (field fileData ''size'')] else [])
       @ (if truthy (field fileData ''createdTime'') \<and> time_of rt (field fileData ''createdTime'') = None
          then [''Invalid createdTime format: '' @ string_of rt (field fileData ''createdTime'')] else [])
       @ (if truthy (field fileData ''modifiedTime'') \<and> time_of rt (field fileData ''modifiedTime'') = None
          then [''Invalid modifiedTime format: '' @ string_of rt (field fileData ''modifiedTime'')] else [])
       @ concat (map (invalid_bool fileData) [''shared'', ''trashed''])
       @ concat (map (invalid_url fileData) [''iconLink'', ''webViewLink''])
       @ invalid_object fileData ''owner''
       @ invalid_object fileData ''lastModifyingUser''
       @ invalid_permissions fileData))"
  by (simp add: validation_errors_def invalid_size_eq invalid_date_eq and_then_simps)

lemma validation_errors_returns:
  assumes "validation_errors rt fileData = Inr errs"
  shows "errs =
       concat (map (missing_required fileData) [''id'', ''name'', ''mimeType''])
       @ invalid_id fileData
       @ (if truthy (field fileData ''size'') \<and> nan_of rt (field fileData ''size'')
          then [''Invalid size format: '' @ string_of rt (field fileData ''size'')] else [])
       @ (if truthy (field fileData ''createdTime'') \<and> time_of rt (field fileData ''createdTime'') = None
          then [''Invalid createdTime format: '' @ string_of rt (field fileData ''createdTime'')] else [])
       @ (if truthy (field fileData ''modifiedTime'') \<and> time_of rt (field fileData ''modifiedTime'') = None
          then [''Invalid modifiedTime format: '' @ string_of rt (field fileData ''modifiedTime'')] else [])
       @ concat (map (invalid_bool fileData) [''shared'', ''trashed''])
       @ concat (map (invalid_url fileData) [''iconLink'', ''webViewLink''])
       @ invalid_object fileData ''owner''
       @ invalid_object fileData ''lastModifyingUser''
       @ invalid_permissions fileData"
proof (cases "toPrimitive_throws (field fileData ''size'')
         \<or> toPrimitive_throws (field fileData ''createdTime'')
         \<or> toPrimitive_throws (field fileData ''modifiedTime'')")
  case True
  with assms show ?thesis
    by (subst (asm) validation_errors_eq) (simp only: if_True sum.distinct)
next
  case False
  with assms show ?thesis
    by (subst (asm) validation_errors_eq) (simp only: if_False sum.inject)
qed

lemma validate_returns:
  "validateFileData rt fileData = Inr v \<Longrightarrow>
     validation_errors rt fileData = Inr (v_errors v)
     \<and> sanitizeFileData rt fileData = Inr (sanitizedData v)
     \<and> isValid v = (v_errors v = [])"
  by (auto simp: validateFileData_def and_then_Inr)

lemma validate_throws:
  "validateFileData rt fileData = Inl e \<Longrightarrow>
     e = conversion_error
     \<or> e = JsError (''Failed to sanitize file data: '' @ message conversion_error)"
  by (auto simp: validateFileData_def and_then_Inl dest: validation_errors_throws sanitize_throws)

lemma validate_Inl_iff:
  "(\<exists>e. validateFileData rt fileData = Inl e) \<longleftrightarrow> conversion_throws fileData"
proof -
  have "(\<exists>e. validateFileData rt fileData = Inl e) \<longleftrightarrow>
        (\<exists>e. validation_errors rt fileData = Inl e) \<or> (\<exists>e. sanitizeFileData rt fileData = Inl e)"
    by (cases "validation_errors rt fileData"; cases "sanitizeFileData rt fileData")
      (simp_all add: validateFileData_def and_then_simps)
  then show ?thesis
    by (auto simp: validation_errors_Inl_iff sanitize_Inl_iff conversion_throws_def
        converted_fields_def)
qed

lemma validate_total:
  "\<not> conversion_throws fileData \<Longrightarrow> \<exists>v. validateFileData rt fileData = Inr v"
  using validate_Inl_iff [of rt fileData] by (cases "validateFileData rt fileData") auto

lemma valid_id:
  assumes "validateFileData rt fileData = Inr v" and "isValid v"
  shows "JStr (f_id (sanitizedData v)) = field fileData ''id''"
proof -
  note r = validate_returns [OF assms(1)]
  from r assms(2) have e: "validation_errors rt fileData = Inr []" by simp
  from validation_errors_returns [OF e]
  have "invalid_id fileData = []" and "missing_required fileData ''id'' = []"
    by simp_all
  then have "truthy (field fileData ''id'')" and "typeof (field fileData ''id'') = ''string''"
    by (auto simp: invalid_id_def missing_required_def split: if_splits)
  then obtain s where "field fileData ''id'' = JStr s"
    using typeof_string by blast
  with sanitize_returns [of rt fileData "sanitizedData v"] r show ?thesis
    by simp
qed

lemma missing_required_in:
  "fld \<in> {''id'', ''name'', ''mimeType''} \<Longrightarrow> \<not> truthy (field fileData fld) \<Longrightarrow>
   validation_errors rt fileData = Inr errs \<Longrightarrow>
   (''Missing required field: '' @ fld) \<in> set errs"
  by (drule validation_errors_returns) (auto simp: missing_required_def)

lemma other_errors:
  "m \<in> set (missing_required fileData fld) \<Longrightarrow> take 20 m \<noteq> ''Invalid size format:''"
  "m \<in> set (invalid_id fileData) \<Longrightarrow> take 20 m \<noteq> ''Invalid size format:''"
  "m \<in> set (invalid_bool fileData ''shared'') \<Longrightarrow> take 20 m \<noteq> ''Invalid size format:''"
  "m \<in> set (invalid_bool fileData ''trashed'') \<Longrightarrow> take 20 m \<noteq> ''Invalid size format:''"
  "m \<in> set (invalid_url fileData ''iconLink'') \<Longrightarrow> take 20 m \<noteq> ''Invalid size format:''"
  "m \<in> set (invalid_url fileData ''webViewLink'') \<Longrightarrow> take 20 m \<noteq> ''Invalid size format:''"
  "m \<in> set (invalid_object fileData ''owner'') \<Longrightarrow> take 20 m \<noteq> ''Invalid size format:''"
  "m \<in> set (invalid_object fileData ''lastModifyingUser'') \<Longrightarrow> take 20 m \<noteq> ''Invalid size format:''"
  "m \<in> set (invalid_permissions fileData) \<Longrightarrow> take 20 m \<noteq> ''Invalid size format:''"
  by (auto simp: missing_required_def invalid_id_def invalid_bool_def invalid_url_def
      invalid_object_def invalid_permissions_def split: if_splits)

lemma no_size_error:
  assumes "\<not> truthy (field fileData ''size'')" and "validation_errors rt fileData = Inr errs"
    and "m \<in> set errs"
  shows "take 20 m \<noteq> ''Invalid size format:''"
proof -
  from validation_errors_returns [OF assms(2)] assms(1,3)
  have "m \<in> set (missing_required fileData ''id'') \<or> m \<in> set (missing_required fileData ''name'')
      \<or> m \<in> set (missing_required fileData ''mimeType'') \<or> m \<in> set (invalid_id fileData)
      \<or> m = ''Invalid createdTime format: '' @ string_of rt (field fileData ''createdTime'')
      \<or> m = ''Invalid modifiedTime format: '' @ string_of rt (field fileData ''modifiedTime'')
      \<or> m \<in> set (invalid_bool fileData ''shared'') \<or> m \<in> set (invalid_bool fileData ''trashed'')
      \<or> m \<in> set (invalid_url fileData ''iconLink'') \<or> m \<in> set (invalid_url fileData ''webViewLink'')
      \<or> m \<in> set (invalid_object fileData ''owner'')
      \<or> m \<in> set (invalid_object fileData ''lastModifyingUser'')
      \<or> m \<in> set (invalid_permissions fileData)"
    by (auto split: if_splits)
  then show ?thesis
    using other_errors [of m fileData] by auto
qed

lemma invalid_without_mimeType:
  "map_of fileData ''mimeType'' = None \<Longrightarrow> validateFileData rt fileData = Inr v \<Longrightarrow> \<not> isValid v"
  using missing_required_in [of "''mimeType''" fileData rt "v_errors v"]
  by (auto simp: field_def dest!: validate_returns)

lemma invalid_with_bad_size:
  "truthy (field fileData ''size'') \<Longrightarrow> number_isNaN rt (field fileData ''size'') = Inr True \<Longrightarrow>
   validateFileData rt fileData = Inr v \<Longrightarrow> \<not> isValid v"
  by (auto simp: number_isNaN_def split: if_splits
      dest!: validate_returns validation_errors_returns)

text \<open>
  Claim C10, as amended. Whenever \<open>validateFileData\<close> returns: a record whose \<open>id\<close>,
  \<open>name\<close> or \<open>mimeType\<close> is falsy (the empty string is) is invalid and has the error
  \<open>Missing required field: <field>\<close>; and the numeric check of \<open>size\<close> is skipped for a
  falsy size (\<open>0\<close> and the empty string are), so that no error of the record begins with
  \<open>Invalid size format:\<close>. It returns exactly when every field it converts does
  convert; otherwise it throws, the \<open>TypeError\<close> of the conversion or the error of
  \<open>sanitizeFileData\<close>, and reports no missing field.
\<close>

theorem C10_falsy_is_missing:
  "(validateFileData rt fileData = Inr v \<and> fld \<in> {''id'', ''name'', ''mimeType''}
      \<and> \<not> truthy (field fileData fld) \<longrightarrow>
      \<not> isValid v \<and> (''Missing required field: '' @ fld) \<in> set (v_errors v))
   \<and> (validateFileData rt fileData = Inr v \<and> \<not> truthy (field fileData ''size'') \<longrightarrow>
      (\<forall>m \<in> set (v_errors v). take 20 m \<noteq> ''Invalid size format:''))
   \<and> (\<not> conversion_throws fileData \<longrightarrow> (\<exists>v'. validateFileData rt fileData = Inr v'))
   \<and> (conversion_throws fileData \<longrightarrow>
        validateFileData rt fileData = Inl (JsError ''Cannot convert object to primitive value'')
        \<or> validateFileData rt fileData =
            Inl (JsError ''Failed to sanitize file data: Cannot convert object to primitive value''))"
proof (intro conjI impI ballI)
  assume h: "validateFileData rt fileData = Inr v \<and> fld \<in> {''id'', ''name'', ''mimeType''}
      \<and> \<not> truthy (field fileData fld)"
  note r = validate_returns [OF h [THEN conjunct1]]
  from h r have m: "(''Missing required field: '' @ fld) \<in> set (v_errors v)"
    using missing_required_in [of fld fileData rt "v_errors v"] by blast
  then show "(''Missing required field: '' @ fld) \<in> set (v_errors v)" .
  from m have "v_errors v \<noteq> []" by auto
  with r show "\<not> isValid v" by simp
next
  fix m
  assume h: "validateFileData rt fileData = Inr v \<and> \<not> truthy (field fileData ''size'')"
    and m: "m \<in> set (v_errors v)"
  note r = validate_returns [OF h [THEN conjunct1]]
  from no_size_error [OF h [THEN conjunct2] r [THEN conjunct1] m]
  show "take 20 m \<noteq> ''Invalid size format:''" .
next
  assume "\<not> conversion_throws fileData"
  then show "\<exists>v'. validateFileData rt fileData = Inr v'"
    by (rule validate_total)
next
  assume "conversion_throws fileData"
  then obtain e where e: "validateFileData rt fileData = Inl e"
    using validate_Inl_iff [of rt fileData] by blast
  from validate_throws [OF e] e
  show "validateFileData rt fileData = Inl (JsError ''Cannot convert object to primitive value'')
        \<or> validateFileData rt fileData =
            Inl (JsError ''Failed to sanitize file data: Cannot convert object to primitive value'')"
    by (auto simp: conversion_error_def)
qed

text \<open>Claim C10, as amended, on \<open>record_d\<close>, whose \<open>id\<close> is the empty string and whose
  \<open>size\<close> is \<open>0\<close>, and on \<open>record_e\<close>, whose \<open>name\<close> does not convert.\<close>

theorem C10_witness:
  "''id'' \<in> {''id'', ''name'', ''mimeType''}
   \<and> field record_d ''id'' = JStr [] \<and> \<not> truthy (field record_d ''id'')
   \<and> field record_d ''size'' = JNum 0 \<and> \<not> truthy (field record_d ''size'')
   \<and> \<not> conversion_throws record_d
   \<and> (case validateFileData sample_runtime record_d of
         Inl e \<Rightarrow> False
       | Inr v \<Rightarrow> \<not> isValid v \<and> ''Missing required field: id'' \<in> set (v_errors v)
                  \<and> list_all (\<lambda>m. take 20 m \<noteq> ''Invalid size format:'') (v_errors v))
   \<and> conversion_throws record_e
   \<and> validateFileData sample_runtime record_e =
        Inl (JsError ''Failed to sanitize file data: Cannot convert object to primitive value'')"
proof -
  have h: "field record_d ''id'' = JStr [] \<and> \<not> truthy (field record_d ''id'')
           \<and> field record_d ''size'' = JNum 0 \<and> \<not> truthy (field record_d ''size'')
           \<and> \<not> conversion_throws record_d \<and> conversion_throws record_e"
    by code_simp
  have n: "validateFileData sample_runtime record_e
             \<noteq> Inl (JsError ''Cannot convert object to primitive value'')"
    by code_simp
  from C10_falsy_is_missing [of sample_runtime record_d _ "''id''"] h
  obtain v where v: "validateFileData sample_runtime record_d = Inr v"
    by blast
  from C10_falsy_is_missing [of sample_runtime record_d v "''id''"] h v
  have "\<not> isValid v \<and> ''Missing required field: id'' \<in> set (v_errors v)
        \<and> list_all (\<lambda>m. take 20 m \<noteq> ''Invalid size format:'') (v_errors v)"
    by (simp add: list_all_iff)
  moreover from C10_falsy_is_missing [of sample_runtime record_e _ "''id''"] h n
  have "validateFileData sample_runtime record_e =
        Inl (JsError ''Failed to sanitize file data: Cannot convert object to primitive value'')"
    by blast
  ultimately show ?thesis
    using h v by simp
qed

text \<open>
  Claim C10 as stated fails on \<open>record_e\<close>: its \<open>id\<close> is the empty string, and no
  missing-field error is reported, since \<open>validateFileData\<close> throws in
  \<open>sanitizeFileData\<close>, on the \<open>name\<close>. The report of \<open>processFiles\<close> has that exception
  as the error of the item.
\<close>

theorem C10_counterexample:
  "field record_e ''id'' = JStr []
   \<and> validateFileData sample_runtime record_e =
        Inl (JsError ''Failed to sanitize file data: Cannot convert object to primitive value'')
   \<and> fst (processFiles sample_runtime no_faults [record_e] empty_store) =
        Inr \<lparr> success = 0, failed = 1,
              errors = [\<lparr> fileId = JStr [],
                          error = ''Failed to sanitize file data: Cannot convert object to primitive value'',
                          validationErrors = None \<rparr>],
              validationIssues = [], usersProcessed = 0 \<rparr>"
  by code_simp

subsection \<open>Items and batches\<close>

lemma processOwner_keeps_files:
  "processOwner fl ownerData st = (u, st') \<Longrightarrow> files st' = files st \<and> upserts st' = upserts st"
  by (auto simp: processOwner_def User_findOrCreate_def User_update_def Let_def
      split: if_splits option.splits sum.splits prod.splits)

lemma File_upsert_ok:
  "upsert_throws fl st a = None \<Longrightarrow>
   File_upsert fl a st =
     Inr (st \<lparr> files := AList.update (arg_id a) (merge_row a (map_of (files st) (arg_id a))) (files st),
               upserts := upserts st @ [a] \<rparr>)"
  by (simp add: File_upsert_def)

lemma catch_item_ok:
  assumes "upsert_throws fl st (Degraded (degraded_of rt fileData e)) = None"
  shows "\<exists>st'. catch_item rt fl fileData e (res, st) =
           (None, res \<lparr> failed := failed res + 1, errors := errors res @ [error_entry_of fileData e] \<rparr>, st')
         \<and> upserts st' = upserts st @ [Degraded (degraded_of rt fileData e)]
         \<and> users st' = users st
         \<and> fst ` set (files st') = insert (field fileData ''id'') (fst ` set (files st))
         \<and> map_option r_syncStatus (map_of (files st') (field fileData ''id'')) = Some SyncError"
  using assms
  by (simp add: catch_item_def File_upsert_ok Let_def degraded_of_def dom_update update_conv' merge_row_def)

lemma try_item_invalid:
  assumes "\<forall>v. validateFileData rt fileData = Inr v \<longrightarrow> \<not> isValid v"
  shows "\<exists>res1 st1 e. try_item rt fl fileData (res, st) = (Some e, res1, st1)
           \<and> success res1 = success res \<and> failed res1 = failed res \<and> errors res1 = errors res
           \<and> files st1 = files st \<and> upserts st1 = upserts st"
proof -
  obtain user st1 where po: "processOwner fl (field fileData ''owner'') st = (user, st1)"
    by (cases "processOwner fl (field fileData ''owner'') st")
  from processOwner_keeps_files [OF po] assms po show ?thesis
    by (cases "validateFileData rt fileData") (simp_all add: try_item_def Let_def)
qed





lemma processOwner_throws_null:
  "owner_resolution_throws fl ownerData st \<Longrightarrow> processOwner fl ownerData st = (None, st)"
  by (auto simp: owner_resolution_throws_def processOwner_def User_findOrCreate_def Let_def
      split: sum.splits prod.splits option.splits if_splits)

lemma try_item_null_owner:
  assumes "processOwner fl (field fileData ''owner'') st = (None, st)"
  shows "try_item rt fl fileData (res, st) =
     (case validateFileData rt fileData of
        Inl e \<Rightarrow> (Some e, res, st)
      | Inr v \<Rightarrow>
          if \<not> isValid v
          then (Some (JsError (''Validation failed: '' @ join '', '' (v_errors v))), res, st)
          else (case File_upsert fl (Sanitized ((sanitizedData v) \<lparr> f_userId := None \<rparr>)) st of
                  Inl e \<Rightarrow> (Some e, res, st)
                | Inr st2 \<Rightarrow> (None, res \<lparr> success := success res + 1 \<rparr>, st2)))"
  using assms
  by (simp add: try_item_def Let_def split: sum.splits)

text \<open>
  Claim C9. When a store call inside owner resolution throws (\<open>findOrCreate\<close>, or the
  \<open>update\<close> of a row that differs), \<open>processOwner\<close> catches it and returns the null
  owner, leaving the store as it was. The item then goes on with \<open>userId = null\<close>: if it
  validates and its upsert goes through, it is counted as a success and only as that (the
  failed count and the error list of the report are as before), and the row upserted has
  no user. The only exceptions the item can then come to record are those of the item
  itself: what \<open>validateFileData\<close> throws, the validation error, and what the upsert of
  the file throws.
\<close>

theorem C9_owner_failure_absorbed:
  assumes "owner_resolution_throws fl (field fileData ''owner'') st"
  shows "processOwner fl (field fileData ''owner'') st = (None, st)
    \<and> (\<forall>v. validateFileData rt fileData = Inr v \<and> isValid v
            \<and> upsert_throws fl st (Sanitized (sanitizedData v)) = None \<longrightarrow>
        (\<exists>st'. processItem rt fl fileData (res, st) = (None, res \<lparr> success := success res + 1 \<rparr>, st')
           \<and> upserts st' = upserts st @ [Sanitized (sanitizedData v)]
           \<and> f_userId (sanitizedData v) = None))
    \<and> (\<forall>e. fst (try_item rt fl fileData (res, st)) = Some e \<longrightarrow>
          validateFileData rt fileData = Inl e
          \<or> (\<exists>v. validateFileData rt fileData = Inr v
                \<and> (\<not> isValid v \<and> e = JsError (''Validation failed: '' @ join '', '' (v_errors v))
                    \<or> isValid v \<and> upsert_throws fl st (Sanitized (sanitizedData v)) = Some e)))"
proof -
  have po: "processOwner fl (field fileData ''owner'') st = (None, st)"
    using assms by (rule processOwner_throws_null)
  note t = try_item_null_owner [OF po, of rt res]
  have uid: "\<And>v. validateFileData rt fileData = Inr v \<Longrightarrow>
      (sanitizedData v) \<lparr> f_userId := None \<rparr> = sanitizedData v \<and> f_userId (sanitizedData v) = None"
  proof -
    fix v
    assume "validateFileData rt fileData = Inr v"
    from validate_returns [OF this] have "sanitizeFileData rt fileData = Inr (sanitizedData v)"
      by simp
    from sanitize_returns [OF this] show
      "(sanitizedData v) \<lparr> f_userId := None \<rparr> = sanitizedData v \<and> f_userId (sanitizedData v) = None"
      by simp
  qed
  have ok: "\<forall>v. validateFileData rt fileData = Inr v \<and> isValid v
            \<and> upsert_throws fl st (Sanitized (sanitizedData v)) = None \<longrightarrow>
        (\<exists>st'. processItem rt fl fileData (res, st) = (None, res \<lparr> success := success res + 1 \<rparr>, st')
           \<and> upserts st' = upserts st @ [Sanitized (sanitizedData v)]
           \<and> f_userId (sanitizedData v) = None)"
  proof (intro allI impI)
    fix v
    assume h: "validateFileData rt fileData = Inr v \<and> isValid v
            \<and> upsert_throws fl st (Sanitized (sanitizedData v)) = None"
    note u = uid [OF h [THEN conjunct1]]
    from h u t show "\<exists>st'. processItem rt fl fileData (res, st) = (None, res \<lparr> success := success res + 1 \<rparr>, st')
           \<and> upserts st' = upserts st @ [Sanitized (sanitizedData v)]
           \<and> f_userId (sanitizedData v) = None"
      by (simp add: processItem_def File_upsert_ok)
  qed
  have only: "\<forall>e. fst (try_item rt fl fileData (res, st)) = Some e \<longrightarrow>
          validateFileData rt fileData = Inl e
          \<or> (\<exists>v. validateFileData rt fileData = Inr v
                \<and> (\<not> isValid v \<and> e = JsError (''Validation failed: '' @ join '', '' (v_errors v))
                    \<or> isValid v \<and> upsert_throws fl st (Sanitized (sanitizedData v)) = Some e))"
  proof (intro allI impI)
    fix e
    assume e: "fst (try_item rt fl fileData (res, st)) = Some e"
    show "validateFileData rt fileData = Inl e
          \<or> (\<exists>v. validateFileData rt fileData = Inr v
                \<and> (\<not> isValid v \<and> e = JsError (''Validation failed: '' @ join '', '' (v_errors v))
                    \<or> isValid v \<and> upsert_throws fl st (Sanitized (sanitizedData v)) = Some e))"
    proof (cases "validateFileData rt fileData")
      case (Inl e')
      with e t show ?thesis by simp
    next
      case (Inr v)
      note u = uid [OF Inr, THEN conjunct1]
      from e t Inr show ?thesis
        by (auto simp: u File_upsert_def split: if_splits option.splits)
    qed
  qed
  from po ok only show ?thesis
    by blast
qed

lemma processItem_valid_ok:
  assumes "validateFileData rt fileData = Inr v" and "isValid v"
    and "\<forall>st a. upsert_throws fl st a = None"
    and "\<forall>st u. updateStats_throws fl st u = None"
  shows "\<exists>res' st' a. processItem rt fl fileData (res, st) = (None, res', st')
           \<and> success res' = success res + 1 \<and> failed res' = failed res
           \<and> upserts st' = upserts st @ [a] \<and> arg_id a = field fileData ''id''
           \<and> arg_status a = SyncSuccess"
proof -
  obtain user st0 where po: "processOwner fl (field fileData ''owner'') st = (user, st0)"
    by (cases "processOwner fl (field fileData ''owner'') st")
  note keep = processOwner_keeps_files [OF po]
  let ?a = "Sanitized ((sanitizedData v) \<lparr> f_userId := map_option uid user \<rparr>)"
  from validate_returns [OF assms(1)] have "sanitizeFileData rt fileData = Inr (sanitizedData v)"
    by simp
  note s = sanitize_returns [OF this]
  have aid: "arg_id ?a = field fileData ''id''" and ast: "arg_status ?a = SyncSuccess"
    using valid_id [OF assms(1,2)] s by simp_all
  from assms(3) have "upsert_throws fl st0 ?a = None" by simp
  note up = File_upsert_ok [OF this]
  show ?thesis
    using assms(1,2,4) po keep up aid ast
    by (cases user) (auto simp: processItem_def try_item_def Let_def User_updateStats_def)
qed

lemma processItem_invalid_ok:
  assumes "\<forall>v. validateFileData rt fileData = Inr v \<longrightarrow> \<not> isValid v"
    and "\<forall>st a. upsert_throws fl st a = None"
  shows "\<exists>res' st' a. processItem rt fl fileData (res, st) = (None, res', st')
           \<and> success res' = success res \<and> failed res' = failed res + 1
           \<and> upserts st' = upserts st @ [a] \<and> arg_id a = field fileData ''id''
           \<and> arg_status a = SyncError"
proof -
  from try_item_invalid [OF assms(1), of fl res st] obtain res1 st1 e where
    t: "try_item rt fl fileData (res, st) = (Some e, res1, st1)"
    and r: "success res1 = success res" "failed res1 = failed res"
    and u: "upserts st1 = upserts st"
    by blast
  from assms(2) have "upsert_throws fl st1 (Degraded (degraded_of rt fileData e)) = None" by simp
  from catch_item_ok [OF this, of res1] obtain st' where
    c: "catch_item rt fl fileData e (res1, st1) =
          (None, res1 \<lparr> failed := failed res1 + 1, errors := errors res1 @ [error_entry_of fileData e] \<rparr>, st')"
    and u': "upserts st' = upserts st1 @ [Degraded (degraded_of rt fileData e)]"
    by blast
  from t c r u u' show ?thesis
    by (simp add: processItem_def degraded_of_def)
qed

text \<open>
  The scenario of three records when no store write throws: \<open>recA\<close> valid, \<open>recB\<close> without
  \<open>mimeType\<close>, \<open>recC\<close> with a size that is present and not a number. When neither
  \<open>File.upsert\<close> nor the statistics update that follows the upsert of a record with an
  owner throws, the report has \<open>success = 1\<close> and \<open>failed = 2\<close>, and three upserts are
  issued: one for the id of \<open>recA\<close> with status success, and one each for the ids of
  \<open>recB\<close> and \<open>recC\<close> with status error.
\<close>

lemma scenario_without_faults:
  assumes "validateFileData rt recA = Inr v \<and> isValid v"
    and "map_of recB ''mimeType'' = None"
    and "truthy (field recC ''size'') \<and> number_isNaN rt (field recC ''size'') = Inr True"
    and "\<forall>st a. upsert_throws fl st a = None"
    and "\<forall>st u. updateStats_throws fl st u = None"
  shows "\<exists>res st' a b c. processFiles rt fl [recA, recB, recC] st = (Inr res, st')
           \<and> success res = 1 \<and> failed res = 2
           \<and> mset (upserts st') = mset (upserts st) + {#a, b, c#}
           \<and> arg_id a = field recA ''id'' \<and> arg_status a = SyncSuccess
           \<and> arg_id b = field recB ''id'' \<and> arg_status b = SyncError
           \<and> arg_id c = field recC ''id'' \<and> arg_status c = SyncError"
proof -
  have vb: "\<forall>v. validateFileData rt recB = Inr v \<longrightarrow> \<not> isValid v"
    using assms(2) by (blast dest: invalid_without_mimeType)
  have vc: "\<forall>v. validateFileData rt recC = Inr v \<longrightarrow> \<not> isValid v"
    using assms(3) by (blast dest: invalid_with_bad_size)
  from processItem_valid_ok [OF assms(1) [THEN conjunct1] assms(1) [THEN conjunct2] assms(4,5),
      of initial_results st] obtain r1 s1 a where
    1: "processItem rt fl recA (initial_results, st) = (None, r1, s1)"
    and c1: "success r1 = 1" "failed r1 = 0"
    and u1: "upserts s1 = upserts st @ [a]" "arg_id a = field recA ''id''" "arg_status a = SyncSuccess"
    by (auto simp: initial_results_def)
  from processItem_invalid_ok [OF vb assms(4), of r1 s1] obtain r2 s2 b where
    2: "processItem rt fl recB (r1, s1) = (None, r2, s2)"
    and c2: "success r2 = success r1" "failed r2 = failed r1 + 1"
    and u2: "upserts s2 = upserts s1 @ [b]" "arg_id b = field recB ''id''" "arg_status b = SyncError"
    by blast
  from processItem_invalid_ok [OF vc assms(4), of r2 s2] obtain r3 s3 c where
    3: "processItem rt fl recC (r2, s2) = (None, r3, s3)"
    and c3: "success r3 = success r2" "failed r3 = failed r2 + 1"
    and u3: "upserts s3 = upserts s2 @ [c]" "arg_id c = field recC ''id''" "arg_status c = SyncError"
    by blast
  have "processBatch rt fl [recA, recB, recC] (initial_results, st) = (None, r3, s3)"
    using 1 2 3 by simp
  then have "processFiles rt fl [recA, recB, recC] st = (Inr r3, s3)"
    by (simp add: processFiles_def processSlices.simps [of _ _ "[recA, recB, recC]"]
        processSlices.simps [of _ _ "[]"] batchSize_def)
  moreover have "mset (upserts s3) = mset (upserts st) + {#a, b, c#}"
    using u1 u2 u3 by simp
  ultimately show ?thesis
    using c1 c2 c3 u1 u2 u3 by (intro exI [of _ r3] exI [of _ s3] exI [of _ a] exI [of _ b] exI [of _ c]) simp
qed








text \<open>
  Claim C3 fails when the statistics update throws. On the three sample records, from the
  empty store, with every \<open>File.upsert\<close> succeeding and \<open>updateStats\<close> throwing:
  \<open>record_a\<close> is valid and its row is upserted with status success, then the exception of
  \<open>updateStats\<close> enters the \<open>catch\<close>, which counts the item as failed too and upserts the
  degraded row over the first. The report has \<open>success = 1\<close> and \<open>failed = 3\<close>, three
  errors, and the row of \<open>record_a\<close> ends with status error. With a store that never
  throws, the report has \<open>success = 1\<close> and \<open>failed = 2\<close>.
\<close>

theorem C3_updateStats_failure:
  "upsert_throws updateStats_down = (\<lambda>st a. None)
   \<and> (case fst (processFiles sample_runtime updateStats_down [record_a, record_b, record_c] empty_store) of
         Inl e \<Rightarrow> False
       | Inr res \<Rightarrow> success res = 1 \<and> failed res = 3 \<and> length (errors res) = 3
           \<and> \<lparr> fileId = JStr ''a'', error = ''db down'', validationErrors = None \<rparr> \<in> set (errors res))
   \<and> map arg_status
        (filter (\<lambda>a. arg_id a = JStr ''a'')
           (upserts (snd (processFiles sample_runtime updateStats_down
              [record_a, record_b, record_c] empty_store))))
       = [SyncSuccess, SyncError]
   \<and> map_option r_syncStatus
       (map_of (files (snd (processFiles sample_runtime updateStats_down
           [record_a, record_b, record_c] empty_store))) (JStr ''a'')) = Some SyncError
   \<and> (case fst (processFiles sample_runtime no_faults [record_a, record_b, record_c] empty_store) of
         Inl e \<Rightarrow> False
       | Inr res \<Rightarrow> success res = 1 \<and> failed res = 2)"
proof -
  have "upsert_throws updateStats_down = (\<lambda>st a. None)"
    by (simp add: updateStats_down_def no_faults_def)
  moreover have
    "(case fst (processFiles sample_runtime updateStats_down [record_a, record_b, record_c] empty_store) of
         Inl e \<Rightarrow> False
       | Inr res \<Rightarrow> success res = 1 \<and> failed res = 3 \<and> length (errors res) = 3
           \<and> \<lparr> fileId = JStr ''a'', error = ''db down'', validationErrors = None \<rparr> \<in> set (errors res))
   \<and> map arg_status
        (filter (\<lambda>a. arg_id a = JStr ''a'')
           (upserts (snd (processFiles sample_runtime updateStats_down
              [record_a, record_b, record_c] empty_store))))
       = [SyncSuccess, SyncError]
   \<and> map_option r_syncStatus
       (map_of (files (snd (processFiles sample_runtime updateStats_down
           [record_a, record_b, record_c] empty_store))) (JStr ''a'')) = Some SyncError
   \<and> (case fst (processFiles sample_runtime no_faults [record_a, record_b, record_c] empty_store) of
         Inl e \<Rightarrow> False
       | Inr res \<Rightarrow> success res = 1 \<and> failed res = 2)"
    by code_simp
  ultimately show ?thesis
    by (rule conjI)
qed

subsection \<open>Owner resolution\<close>









subsection \<open>Worked examples\<close>

text \<open>Claim C9 with a store whose \<open>findOrCreate\<close> throws: on \<open>record_a\<close>, which is valid,
  and on \<open>record_f\<close>, which is not.\<close>

theorem C9_witness:
  "owner_resolution_throws findOrCreate_down (field record_a ''owner'') empty_store
   \<and> (case validateFileData sample_runtime record_a of
         Inl e \<Rightarrow> False
       | Inr v \<Rightarrow> isValid v
           \<and> upsert_throws findOrCreate_down empty_store (Sanitized (sanitizedData v)) = None)
   \<and> processOwner findOrCreate_down (field record_a ''owner'') empty_store = (None, empty_store)
   \<and> fst (processItem sample_runtime findOrCreate_down record_a (initial_results, empty_store)) = None
   \<and> fst (snd (processItem sample_runtime findOrCreate_down record_a (initial_results, empty_store)))
       = initial_results \<lparr> success := 1 \<rparr>
   \<and> owner_resolution_throws findOrCreate_down (field record_f ''owner'') empty_store
   \<and> fst (try_item sample_runtime findOrCreate_down record_f (initial_results, empty_store))
       = Some (JsError ''Validation failed: Missing required field: mimeType'')
   \<and> (case validateFileData sample_runtime record_f of
         Inl e \<Rightarrow> False
       | Inr v \<Rightarrow> \<not> isValid v
           \<and> ''Validation failed: '' @ join '', '' (v_errors v)
               = ''Validation failed: Missing required field: mimeType'')"
proof -
  have h: "owner_resolution_throws findOrCreate_down (field record_a ''owner'') empty_store"
    and h': "owner_resolution_throws findOrCreate_down (field record_f ''owner'') empty_store"
    by code_simp+
  have c: "case validateFileData sample_runtime record_a of
         Inl e \<Rightarrow> False
       | Inr v \<Rightarrow> isValid v
           \<and> upsert_throws findOrCreate_down empty_store (Sanitized (sanitizedData v)) = None"
    by code_simp
  then obtain v where v: "validateFileData sample_runtime record_a = Inr v \<and> isValid v
           \<and> upsert_throws findOrCreate_down empty_store (Sanitized (sanitizedData v)) = None"
    by (cases "validateFileData sample_runtime record_a") auto
  note t = C9_owner_failure_absorbed [OF h, of sample_runtime initial_results]
  from t [THEN conjunct2, THEN conjunct1, rule_format, OF v] t [THEN conjunct1] h c
  have a: "owner_resolution_throws findOrCreate_down (field record_a ''owner'') empty_store
   \<and> (case validateFileData sample_runtime record_a of
         Inl e \<Rightarrow> False
       | Inr v \<Rightarrow> isValid v
           \<and> upsert_throws findOrCreate_down empty_store (Sanitized (sanitizedData v)) = None)
   \<and> processOwner findOrCreate_down (field record_a ''owner'') empty_store = (None, empty_store)
   \<and> fst (processItem sample_runtime findOrCreate_down record_a (initial_results, empty_store)) = None
   \<and> fst (snd (processItem sample_runtime findOrCreate_down record_a (initial_results, empty_store)))
       = initial_results \<lparr> success := 1 \<rparr>"
    by (auto simp: initial_results_def)
  have e: "fst (try_item sample_runtime findOrCreate_down record_f (initial_results, empty_store))
       = Some (JsError ''Validation failed: Missing required field: mimeType'')"
    by code_simp
  have u: "\<And>st x. upsert_throws findOrCreate_down st x = None"
    by (simp add: findOrCreate_down_def no_faults_def)
  have n: "validateFileData sample_runtime record_f
             \<noteq> Inl (JsError ''Validation failed: Missing required field: mimeType'')"
    by code_simp
  from C9_owner_failure_absorbed [OF h', of sample_runtime initial_results,
      THEN conjunct2, THEN conjunct2, rule_format, OF e] u n
  have f: "case validateFileData sample_runtime record_f of
         Inl e \<Rightarrow> False
       | Inr v \<Rightarrow> \<not> isValid v
           \<and> ''Validation failed: '' @ join '', '' (v_errors v)
               = ''Validation failed: Missing required field: mimeType''"
    by auto
  from a h' e f show ?thesis
    by simp
qed



section \<open>Properties of the authentication manager and the provider client\<close>

subsection \<open>Listing\<close>

lemma truthy_iff: "truthy v \<longleftrightarrow> v \<notin> {JUndefined, JNull, JBool False, JNaN, JNum 0, JStr []}"
  by (cases v) auto

lemma truthy_member: "truthy (member v k) \<Longrightarrow> truthy v"
  by (cases v) auto

lemma member_default_null [simp]: "member (default_null v) k = member v k"
  by (cases v) (auto simp: default_null_def)

lemma truthy_default_null [simp]: "truthy (default_null v) = truthy v"
  by (cases v) (auto simp: default_null_def)

lemma field_assign_last: "field (assign target [(k, v)]) k = v"
  by (simp add: assign_def field_def update_conv')

lemma refresh_token_merged: "field (merge_tokens a b r) ''refresh_token'' = r"
  by (simp add: merge_tokens_def field_assign_last)

lemma queryString_cases:
  "queryString rt query filters =
     (if truthy (member filters ''modifiedTime'')
      then (case new_Date rt (member filters ''modifiedTime'') of
              Inl e \<Rightarrow> Inl e
            | Inr None \<Rightarrow> Inl (JsError ''Invalid time value'')
            | Inr (Some t) \<Rightarrow>
                (if truthy query
                 then (case js_String rt query of
                         Inl e \<Rightarrow> Inl e
                       | Inr text \<Rightarrow>
                           Inr (''modifiedTime > '' @ [CHR 0x27] @ isoString rt t @ [CHR 0x27]
                                @ '' and '' @ text))
                 else Inr (''modifiedTime > '' @ [CHR 0x27] @ isoString rt t @ [CHR 0x27])))
      else if truthy query then js_String rt query else Inr [])"
  by (simp add: queryString_def toISOString_def and_then_def split: sum.splits option.splits)

text \<open>
  Claim C5, as amended. \<open>listFiles\<close> builds the filter expression as a conjunction. With
  a \<open>modifiedTime\<close> filter that is given (truthy) and is a valid date \<open>t\<close>, and a query
  that is given (truthy, with text \<open>free_text\<close>), the query string is the clause
  \<open>modifiedTime > '<ISO form of t>'\<close>, the timestamp between single quotes, then
  \<open> and \<close>, then the query; with the filter only it is the clause; with the query only
  it is the query; with neither it is empty, and \<open>q\<close> is omitted. A query that is a
  non-empty string is given, and is its own text. A filter that is given and is no valid
  date makes the expression throw: the \<open>RangeError\<close> of \<open>toISOString\<close>, or the error of
  the conversion to a date. Then \<open>listFiles\<close> throws the same and calls nothing.
  Otherwise the call made to the provider carries \<open>q\<close> as the query string, or no \<open>q\<close>
  when the string is empty.
\<close>

theorem C5_query_conjunction:
  "(truthy (member filters ''modifiedTime'')
      \<and> new_Date rt (member filters ''modifiedTime'') = Inr (Some t)
      \<and> truthy query \<and> js_String rt query = Inr free_text \<longrightarrow>
      queryString rt query filters =
        Inr (''modifiedTime > '' @ [CHR 0x27] @ isoString rt t @ [CHR 0x27] @ '' and '' @ free_text)
      \<and> q_of (''modifiedTime > '' @ [CHR 0x27] @ isoString rt t @ [CHR 0x27] @ '' and '' @ free_text)
          = Some (''modifiedTime > '' @ [CHR 0x27] @ isoString rt t @ [CHR 0x27] @ '' and '' @ free_text))
   \<and> (truthy (member filters ''modifiedTime'')
      \<and> new_Date rt (member filters ''modifiedTime'') = Inr (Some t)
      \<and> \<not> truthy query \<longrightarrow>
      queryString rt query filters =
        Inr (''modifiedTime > '' @ [CHR 0x27] @ isoString rt t @ [CHR 0x27])
      \<and> q_of (''modifiedTime > '' @ [CHR 0x27] @ isoString rt t @ [CHR 0x27])
          = Some (''modifiedTime > '' @ [CHR 0x27] @ isoString rt t @ [CHR 0x27]))
   \<and> (\<not> truthy (member filters ''modifiedTime'') \<and> truthy query \<and> js_String rt query = Inr free_text \<longrightarrow>
      queryString rt query filters = Inr free_text)
   \<and> (\<not> truthy (member filters ''modifiedTime'') \<and> \<not> truthy query \<longrightarrow>
      queryString rt query filters = Inr [] \<and> q_of [] = None)
   \<and> (\<forall>str. query = JStr str \<and> str \<noteq> [] \<longrightarrow>
        truthy query \<and> js_String rt query = Inr str \<and> q_of str = Some str)
   \<and> (truthy (member filters ''modifiedTime'')
      \<and> new_Date rt (member filters ''modifiedTime'') = Inr None \<longrightarrow>
      queryString rt query filters = Inl (JsError ''Invalid time value''))
   \<and> (truthy (member filters ''modifiedTime'')
      \<and> new_Date rt (member filters ''modifiedTime'') = Inl e \<longrightarrow>
      queryString rt query filters = Inl e)
   \<and> (initialized s
      \<and> queryString rt (default_null (a_query args)) (default_null (a_filters args)) = Inl e \<longrightarrow>
      listFiles co rt args s = (Some (Inl e), s))
   \<and> (initialized s \<and> drive s
      \<and> queryString rt (default_null (a_query args)) (default_null (a_filters args)) = Inr qs \<longrightarrow>
      calls (snd (listFiles co rt args s)) = calls s @ [FilesList (listing_params args qs)]
      \<and> p_q (listing_params args qs) = q_of qs)"
  by (auto simp: queryString_cases q_of_def js_String_def listFiles_def
      drive_files_list_def called_def listing_params_def split: sum.splits)

text \<open>
  Claim C5 as stated fails for a filter that is given and is no date: with the filter
  \<open>yesterday\<close> and a query, no query string is built; \<open>listFiles\<close> throws the
  \<open>RangeError\<close> of \<open>toISOString\<close> and makes no call.
\<close>

theorem C5_counterexample:
  "member (a_filters yesterday_args) ''modifiedTime'' = JStr ''yesterday''
   \<and> a_query yesterday_args = JStr ''trashed = false''
   \<and> initialized ready_service \<and> drive ready_service
   \<and> queryString sample_runtime (a_query yesterday_args) (a_filters yesterday_args)
       = Inl (JsError ''Invalid time value'')
   \<and> listFiles provider_ok sample_runtime yesterday_args ready_service
       = (Some (Inl (JsError ''Invalid time value'')), ready_service)
   \<and> calls ready_service = []"
  by code_simp

text \<open>
  Claim C6. When the listing call answers with data \<open>d\<close>, \<open>listFiles\<close> returns the files,
  the \<open>nextPageToken\<close> of \<open>d\<close>, and \<open>hasMore\<close> as its truthiness. Whatever \<open>listFiles\<close>
  returns, its \<open>nextPageToken\<close> is that of a response of the provider, and \<open>hasMore\<close>
  holds exactly when that token is truthy: not when it is missing, \<open>null\<close> or the
  empty string.
\<close>

theorem C6_hasMore:
  "(initialized s \<and> drive s
      \<and> queryString rt (default_null (a_query args)) (default_null (a_filters args)) = Inr qs
      \<and> files_list co s (listing_params args qs) = Inr d \<longrightarrow>
      fst (listFiles co rt args s) =
        Some (Inr \<lparr> l_files = data_files d, l_nextPageToken = data_nextPageToken d,
                    l_hasMore = truthy (data_nextPageToken d) \<rparr>))
   \<and> (\<forall>r. fst (listFiles co rt args s) = Some (Inr r) \<longrightarrow>
        (\<exists>qs d. files_list co s (listing_params args qs) = Inr d
           \<and> l_nextPageToken r = data_nextPageToken d
           \<and> (l_hasMore r \<longleftrightarrow> truthy (l_nextPageToken r))
           \<and> (l_hasMore r \<longleftrightarrow>
                l_nextPageToken r \<notin> {JUndefined, JNull, JBool False, JNaN, JNum 0, JStr []})))"
  by (auto simp: listFiles_def drive_files_list_def truthy_iff split: sum.splits if_splits prod.splits)

subsection \<open>Token merges\<close>

lemma known_is_stored:
  assumes "truthy (member (loadTokensFromSettings co s) k)"
  shows "loadTokensFromSettings co s = stored_tokens s"
proof -
  from assms have t: "truthy (loadTokensFromSettings co s)"
    by (rule truthy_member)
  then show ?thesis
    by (auto simp: loadTokensFromSettings_def systemSettings_get_def stored_tokens_def js_or_def
        split: option.splits if_splits)
qed

lemma stored_is_known:
  assumes "get_throws co s ''google_tokens'' = None"
    and "truthy (member (stored_tokens s) k)"
  shows "loadTokensFromSettings co s = stored_tokens s"
proof -
  from assms(2) have "truthy (stored_tokens s)"
    by (rule truthy_member)
  with assms(1) show ?thesis
    by (simp add: loadTokensFromSettings_def systemSettings_get_def stored_tokens_def js_or_def)
qed

lemma stored_after_update [simp]:
  "stored_tokens (s \<lparr> settings := AList.update ''google_tokens'' v (settings s) \<rparr>) = v"
  by (simp add: stored_tokens_def update_conv')

lemma loadSavedTokens_settings:
  "settings (snd (loadSavedTokens co rt s)) = settings s
   \<or> (\<exists>refreshed.
        refreshToken co s (member (loadTokensFromSettings co s) ''refresh_token'') = Inr refreshed
        \<and> truthy (member (loadTokensFromSettings co s) ''refresh_token'')
        \<and> settings (snd (loadSavedTokens co rt s)) =
            AList.update ''google_tokens''
              (JObj (merge_tokens (loadTokensFromSettings co s) refreshed
                       (member (loadTokensFromSettings co s) ''refresh_token'')))
              (settings s))"
  by (auto simp: loadSavedTokens_def Let_def saveTokensToSettings_def systemSettings_update_def
      called_def emit_def split: option.splits sum.splits)

lemma setCredentials_settings:
  "settings (snd (setCredentials co code s)) = settings s
   \<or> (\<exists>tokens.
        getToken co s code = Inr tokens
        \<and> settings (snd (setCredentials co code s)) =
            AList.update ''google_tokens''
              (JObj (merge_tokens (loadTokensFromSettings co (called (GetToken code) s)) tokens
                       (js_or (member tokens ''refresh_token'')
                          (member (loadTokensFromSettings co (called (GetToken code) s)) ''refresh_token''))))
              (settings s))"
  by (auto simp: setCredentials_def Let_def saveTokensToSettings_def systemSettings_update_def
      called_def emit_def split: option.splits sum.splits)

lemma stored_same: "settings s' = settings s \<Longrightarrow> stored_tokens s' = stored_tokens s"
  by (simp add: stored_tokens_def)

lemma stored_written: "settings s' = AList.update ''google_tokens'' v (settings s) \<Longrightarrow> stored_tokens s' = v"
  by (simp add: stored_tokens_def update_conv')

lemma on_tokens_settings:
  "settings (snd (on_tokens co tokens s)) = settings s
   \<or> (\<exists>merged.
        settings (snd (on_tokens co tokens s)) = AList.update ''google_tokens'' (JObj merged) (settings s)
        \<and> field merged ''refresh_token'' =
            js_or (member tokens ''refresh_token'')
              (member (loadTokensFromSettings co s) ''refresh_token''))"
  by (auto simp: on_tokens_def Let_def saveTokensToSettings_def systemSettings_update_def
      emit_def assign_def field_def update_conv' split: option.splits sum.splits)

lemma truthy_js_or: "truthy b \<Longrightarrow> truthy (js_or a b)"
  by (simp add: js_or_def)

lemma stays_truthy:
  assumes "settings s' = settings s
     \<or> (\<exists>merged. settings s' = AList.update ''google_tokens'' (JObj merged) (settings s)
           \<and> truthy (field merged ''refresh_token''))"
    and "truthy (member (stored_tokens s) ''refresh_token'')"
  shows "truthy (member (stored_tokens s') ''refresh_token'')"
  using assms(1)
proof (elim disjE exE conjE)
  assume "settings s' = settings s"
  from stored_same [OF this] assms(2) show ?thesis by simp
next
  fix merged
  assume "settings s' = AList.update ''google_tokens'' (JObj merged) (settings s)"
    and "truthy (field merged ''refresh_token'')"
  with stored_written [of s' "JObj merged" s] show ?thesis by simp
qed

text \<open>
  What the merges keep. Each of the three operations that merge tokens either leaves the
  rows of the settings store as they are or writes one merged record under
  \<open>google_tokens\<close>.
  In the refresh path (\<open>loadSavedTokens\<close>) the \<open>refresh_token\<close> of the record written
  is the one of the record that was loaded, whatever the refresh response holds, and
  it is truthy. In the code exchange (\<open>setCredentials\<close>) and in the listener of the
  \<open>tokens\<close> event it is the \<open>refresh_token\<close> of the response when that is truthy, and the
  one of the record that was loaded otherwise. Hence, when the record loaded has a
  truthy \<open>refresh_token\<close>, the record in the store has one after each operation. In
  terms of the store alone: a truthy \<open>refresh_token\<close> in the stored record is still
  there after \<open>loadSavedTokens\<close>, and after \<open>setCredentials\<close> and the listener when
  their read of the stored record does not throw.
\<close>

lemma merges_keep_known_refresh_token:
  "(settings (snd (loadSavedTokens co rt s)) = settings s
     \<or> (\<exists>refreshed merged.
          refreshToken co s (member (loadTokensFromSettings co s) ''refresh_token'') = Inr refreshed
          \<and> settings (snd (loadSavedTokens co rt s)) = AList.update ''google_tokens'' (JObj merged) (settings s)
          \<and> field merged ''refresh_token'' = member (loadTokensFromSettings co s) ''refresh_token''
          \<and> truthy (field merged ''refresh_token'')))
   \<and> (settings (snd (setCredentials co code s)) = settings s
     \<or> (\<exists>tokens merged.
          getToken co s code = Inr tokens
          \<and> settings (snd (setCredentials co code s)) = AList.update ''google_tokens'' (JObj merged) (settings s)
          \<and> field merged ''refresh_token'' =
              (if truthy (member tokens ''refresh_token'') then member tokens ''refresh_token''
               else member (loadTokensFromSettings co (called (GetToken code) s)) ''refresh_token'')))
   \<and> (settings (snd (on_tokens co tokens s)) = settings s
     \<or> (\<exists>merged.
          settings (snd (on_tokens co tokens s)) = AList.update ''google_tokens'' (JObj merged) (settings s)
          \<and> field merged ''refresh_token'' =
              (if truthy (member tokens ''refresh_token'') then member tokens ''refresh_token''
               else member (loadTokensFromSettings co s) ''refresh_token'')))
   \<and> (truthy (member (loadTokensFromSettings co s) ''refresh_token'') \<longrightarrow>
        truthy (member (stored_tokens (snd (loadSavedTokens co rt s))) ''refresh_token'')
        \<and> truthy (member (stored_tokens (snd (on_tokens co tokens s))) ''refresh_token''))
   \<and> (truthy (member (loadTokensFromSettings co (called (GetToken code) s)) ''refresh_token'') \<longrightarrow>
        truthy (member (stored_tokens (snd (setCredentials co code s))) ''refresh_token''))
   \<and> (truthy (member (stored_tokens s) ''refresh_token'') \<longrightarrow>
        truthy (member (stored_tokens (snd (loadSavedTokens co rt s))) ''refresh_token''))
   \<and> (truthy (member (stored_tokens s) ''refresh_token'')
        \<and> get_throws co (called (GetToken code) s) ''google_tokens'' = None \<longrightarrow>
        truthy (member (stored_tokens (snd (setCredentials co code s))) ''refresh_token''))
   \<and> (truthy (member (stored_tokens s) ''refresh_token'')
        \<and> get_throws co s ''google_tokens'' = None \<longrightarrow>
        truthy (member (stored_tokens (snd (on_tokens co tokens s))) ''refresh_token''))"
proof (intro conjI impI)
  let ?known = "member (loadTokensFromSettings co s) ''refresh_token''"
  let ?known' = "member (loadTokensFromSettings co (called (GetToken code) s)) ''refresh_token''"
  show r: "settings (snd (loadSavedTokens co rt s)) = settings s
     \<or> (\<exists>refreshed merged.
          refreshToken co s ?known = Inr refreshed
          \<and> settings (snd (loadSavedTokens co rt s)) = AList.update ''google_tokens'' (JObj merged) (settings s)
          \<and> field merged ''refresh_token'' = ?known
          \<and> truthy (field merged ''refresh_token''))"
    using loadSavedTokens_settings [of co rt s]
  proof
    assume "settings (snd (loadSavedTokens co rt s)) = settings s"
    then show ?thesis by (rule disjI1)
  next
    assume "\<exists>refreshed.
        refreshToken co s ?known = Inr refreshed \<and> truthy ?known
        \<and> settings (snd (loadSavedTokens co rt s)) =
            AList.update ''google_tokens''
              (JObj (merge_tokens (loadTokensFromSettings co s) refreshed ?known)) (settings s)"
    then obtain refreshed where
      "refreshToken co s ?known = Inr refreshed" "truthy ?known"
      "settings (snd (loadSavedTokens co rt s)) =
         AList.update ''google_tokens''
           (JObj (merge_tokens (loadTokensFromSettings co s) refreshed ?known)) (settings s)"
      by blast
    then have "refreshToken co s ?known = Inr refreshed
          \<and> settings (snd (loadSavedTokens co rt s)) =
              AList.update ''google_tokens''
                (JObj (merge_tokens (loadTokensFromSettings co s) refreshed ?known)) (settings s)
          \<and> field (merge_tokens (loadTokensFromSettings co s) refreshed ?known) ''refresh_token'' = ?known
          \<and> truthy (field (merge_tokens (loadTokensFromSettings co s) refreshed ?known) ''refresh_token'')"
      by (simp add: refresh_token_merged)
    then show ?thesis by blast
  qed
  show e: "settings (snd (setCredentials co code s)) = settings s
     \<or> (\<exists>tokens merged.
          getToken co s code = Inr tokens
          \<and> settings (snd (setCredentials co code s)) = AList.update ''google_tokens'' (JObj merged) (settings s)
          \<and> field merged ''refresh_token'' =
              (if truthy (member tokens ''refresh_token'') then member tokens ''refresh_token'' else ?known'))"
    using setCredentials_settings [of co code s]
  proof
    assume "settings (snd (setCredentials co code s)) = settings s"
    then show ?thesis by (rule disjI1)
  next
    assume "\<exists>tokens.
        getToken co s code = Inr tokens
        \<and> settings (snd (setCredentials co code s)) =
            AList.update ''google_tokens''
              (JObj (merge_tokens (loadTokensFromSettings co (called (GetToken code) s)) tokens
                       (js_or (member tokens ''refresh_token'') ?known')))
              (settings s)"
    then obtain tokens where
      "getToken co s code = Inr tokens"
      "settings (snd (setCredentials co code s)) =
            AList.update ''google_tokens''
              (JObj (merge_tokens (loadTokensFromSettings co (called (GetToken code) s)) tokens
                       (js_or (member tokens ''refresh_token'') ?known')))
              (settings s)"
      by blast
    then have "getToken co s code = Inr tokens
        \<and> settings (snd (setCredentials co code s)) =
            AList.update ''google_tokens''
              (JObj (merge_tokens (loadTokensFromSettings co (called (GetToken code) s)) tokens
                       (js_or (member tokens ''refresh_token'') ?known')))
              (settings s)
        \<and> field (merge_tokens (loadTokensFromSettings co (called (GetToken code) s)) tokens
                       (js_or (member tokens ''refresh_token'') ?known')) ''refresh_token'' =
              (if truthy (member tokens ''refresh_token'') then member tokens ''refresh_token'' else ?known')"
      by (simp add: refresh_token_merged js_or_def)
    then show ?thesis by blast
  qed
  show t: "settings (snd (on_tokens co tokens s)) = settings s
     \<or> (\<exists>merged.
          settings (snd (on_tokens co tokens s)) = AList.update ''google_tokens'' (JObj merged) (settings s)
          \<and> field merged ''refresh_token'' =
              (if truthy (member tokens ''refresh_token'') then member tokens ''refresh_token'' else ?known))"
    using on_tokens_settings [of co tokens s] by (simp add: js_or_def)
  {
    assume k: "truthy ?known"
    then have st: "truthy (member (stored_tokens s) ''refresh_token'')"
      using known_is_stored [OF k] by simp
    from r k have "settings (snd (loadSavedTokens co rt s)) = settings s
      \<or> (\<exists>merged. settings (snd (loadSavedTokens co rt s)) =
                       AList.update ''google_tokens'' (JObj merged) (settings s)
            \<and> truthy (field merged ''refresh_token''))"
      by blast
    from stays_truthy [OF this st]
    show "truthy (member (stored_tokens (snd (loadSavedTokens co rt s))) ''refresh_token'')" .
    from t k have "settings (snd (on_tokens co tokens s)) = settings s
      \<or> (\<exists>merged. settings (snd (on_tokens co tokens s)) =
                       AList.update ''google_tokens'' (JObj merged) (settings s)
            \<and> truthy (field merged ''refresh_token''))"
      by (metis (full_types))
    from stays_truthy [OF this st]
    show "truthy (member (stored_tokens (snd (on_tokens co tokens s))) ''refresh_token'')" .
  }
  {
    assume k: "truthy ?known'"
    have "stored_tokens (called (GetToken code) s) = stored_tokens s"
      by (simp add: stored_tokens_def called_def)
    with k have st: "truthy (member (stored_tokens s) ''refresh_token'')"
      using known_is_stored [OF k] by simp
    from e k have "settings (snd (setCredentials co code s)) = settings s
      \<or> (\<exists>merged. settings (snd (setCredentials co code s)) =
                       AList.update ''google_tokens'' (JObj merged) (settings s)
            \<and> truthy (field merged ''refresh_token''))"
      by (metis (full_types))
    from stays_truthy [OF this st]
    show "truthy (member (stored_tokens (snd (setCredentials co code s))) ''refresh_token'')" .
  }
  {
    assume st: "truthy (member (stored_tokens s) ''refresh_token'')"
    from r have "settings (snd (loadSavedTokens co rt s)) = settings s
      \<or> (\<exists>merged. settings (snd (loadSavedTokens co rt s)) =
                       AList.update ''google_tokens'' (JObj merged) (settings s)
            \<and> truthy (field merged ''refresh_token''))"
      by blast
    from stays_truthy [OF this st]
    show "truthy (member (stored_tokens (snd (loadSavedTokens co rt s))) ''refresh_token'')" .
  }
  {
    assume a: "truthy (member (stored_tokens s) ''refresh_token'')
        \<and> get_throws co (called (GetToken code) s) ''google_tokens'' = None"
    then have st: "truthy (member (stored_tokens s) ''refresh_token'')" by simp
    have "stored_tokens (called (GetToken code) s) = stored_tokens s"
      by (simp add: stored_tokens_def called_def)
    with a have "loadTokensFromSettings co (called (GetToken code) s) = stored_tokens s"
      using stored_is_known [of co "called (GetToken code) s" "''refresh_token''"] by simp
    with st have k: "truthy ?known'" by simp
    from e k have "settings (snd (setCredentials co code s)) = settings s
      \<or> (\<exists>merged. settings (snd (setCredentials co code s)) =
                       AList.update ''google_tokens'' (JObj merged) (settings s)
            \<and> truthy (field merged ''refresh_token''))"
      by (metis (full_types))
    from stays_truthy [OF this st]
    show "truthy (member (stored_tokens (snd (setCredentials co code s))) ''refresh_token'')" .
  }
  {
    assume a: "truthy (member (stored_tokens s) ''refresh_token'')
        \<and> get_throws co s ''google_tokens'' = None"
    then have st: "truthy (member (stored_tokens s) ''refresh_token'')" by simp
    from a have "loadTokensFromSettings co s = stored_tokens s"
      using stored_is_known [of co s "''refresh_token''"] by simp
    with st have k: "truthy ?known" by simp
    from t k have "settings (snd (on_tokens co tokens s)) = settings s
      \<or> (\<exists>merged. settings (snd (on_tokens co tokens s)) =
                       AList.update ''google_tokens'' (JObj merged) (settings s)
            \<and> truthy (field merged ''refresh_token''))"
      by (metis (full_types))
    from stays_truthy [OF this st]
    show "truthy (member (stored_tokens (snd (on_tokens co tokens s))) ''refresh_token'')" .
  }
qed

text \<open>
  Claim C2 fails when the read of the stored record throws. The settings store holds a
  token record with the \<open>refresh_token\<close> \<open>rt-1\<close>; its read throws, so that
  \<open>loadTokensFromSettings\<close> returns \<open>null\<close>; the provider answers the code exchange with
  an access token and no \<open>refresh_token\<close>. Then \<open>setCredentials\<close> merges with no existing
  record and saves a record whose \<open>refresh_token\<close> is \<open>undefined\<close> over the stored one,
  and so does the listener of the \<open>tokens\<close> event.
\<close>

theorem C2_refresh_token_lost:
  "member (stored_tokens expired_service) ''refresh_token'' = JStr ''rt-1''
   \<and> get_throws read_down (called (GetToken (JStr ''code'')) expired_service) ''google_tokens''
       = Some (JsError ''db down'')
   \<and> loadTokensFromSettings read_down (called (GetToken (JStr ''code'')) expired_service) = JNull
   \<and> getToken read_down expired_service (JStr ''code'') = Inr granted_tokens
   \<and> member granted_tokens ''refresh_token'' = JUndefined
   \<and> fst (setCredentials read_down (JStr ''code'') expired_service)
       = Inr (JObj [(''access_token'', JStr ''at-3''), (''refresh_token'', JUndefined)])
   \<and> stored_tokens (snd (setCredentials read_down (JStr ''code'') expired_service))
       = JObj [(''access_token'', JStr ''at-3''), (''refresh_token'', JUndefined)]
   \<and> fst (on_tokens read_down granted_tokens expired_service) = None
   \<and> member (stored_tokens (snd (on_tokens read_down granted_tokens expired_service)))
        ''refresh_token'' = JUndefined"
  by code_simp

subsection \<open>Verification and initialization\<close>

lemma loadSavedTokens_refresh_fails:
  assumes "auth s = Some a" and "truthy (loadTokensFromSettings co s)"
    and "new_Date rt (member (loadTokensFromSettings co s) ''expiry_date'') = Inr expiryDate
         \<and> expired rt expiryDate"
    and "truthy (member (loadTokensFromSettings co s) ''refresh_token'')"
    and "refreshToken co s (member (loadTokensFromSettings co s) ''refresh_token'') = Inl e"
  shows "loadSavedTokens co rt s =
     (False, (called (RefreshToken (member (loadTokensFromSettings co s) ''refresh_token'')) s)
               \<lparr> isAuthenticated := False \<rparr>)"
  using assms by (simp add: loadSavedTokens_def Let_def)

lemma loadSavedTokens_refresh_ok:
  assumes "auth s = Some a" and "truthy (loadTokensFromSettings co s)"
    and "new_Date rt (member (loadTokensFromSettings co s) ''expiry_date'') = Inr expiryDate
         \<and> expired rt expiryDate"
    and "truthy (member (loadTokensFromSettings co s) ''refresh_token'')"
    and "refreshToken co s (member (loadTokensFromSettings co s) ''refresh_token'') = Inr refreshed"
    and "merged = merge_tokens (loadTokensFromSettings co s) refreshed
                    (member (loadTokensFromSettings co s) ''refresh_token'')"
    and "put_throws co (called (RefreshToken (member (loadTokensFromSettings co s) ''refresh_token'')) s)
           ''google_tokens'' (JObj merged) = None"
  shows "loadSavedTokens co rt s =
     (True, (called (RefreshToken (member (loadTokensFromSettings co s) ''refresh_token'')) s)
              \<lparr> auth := Some (a \<lparr> credentials := JObj merged \<rparr>),
                isAuthenticated := True,
                settings := AList.update ''google_tokens'' (JObj merged) (settings s),
                events := events s @ [Authenticated (a \<lparr> credentials := JObj merged \<rparr>)] \<rparr>)"
  using assms
  by (simp add: loadSavedTokens_def Let_def saveTokensToSettings_def systemSettings_update_def
      called_def emit_def)

lemma loadSavedTokens_refresh_calls:
  assumes "truthy (loadTokensFromSettings co s)"
    and "new_Date rt (member (loadTokensFromSettings co s) ''expiry_date'') = Inr expiryDate
         \<and> expired rt expiryDate"
    and "truthy (member (loadTokensFromSettings co s) ''refresh_token'')"
    and "auth s = Some a"
  shows "calls (snd (loadSavedTokens co rt s)) =
           calls s @ [RefreshToken (member (loadTokensFromSettings co s) ''refresh_token'')]"
  using assms
  by (auto simp: loadSavedTokens_def Let_def saveTokensToSettings_def systemSettings_update_def
      called_def emit_def split: sum.splits option.splits)

lemma verify_calls:
  "\<exists>probe. calls (snd (verifyAndInitializeAuth co rt s)) = calls (snd (loadSavedTokens co rt s)) @ probe
     \<and> filter is_refresh probe = []"
  by (cases "loadSavedTokens co rt s")
     (auto simp: verifyAndInitializeAuth_def drive_files_list_def emit_def called_def
        systemSettings_update_def split: option.splits sum.splits prod.splits)

text \<open>
  The verification of an expired record. With a client, a persisted token record that is
  expired and a truthy \<open>refresh_token\<close> in it, \<open>verifyAndInitializeAuth\<close> asks for exactly
  one refresh.
  When the refresh fails, the result is \<open>false\<close>, the settings store is as before (the
  token record is kept), the session is marked unauthenticated and
  \<open>authenticationRequired\<close> is the one event emitted. When the refresh succeeds and the
  merged record is saved, \<open>loadSavedTokens\<close> has persisted the merged record, which keeps
  the \<open>refresh_token\<close>, has given it to the client, marked the session authenticated and
  emitted \<open>authenticated\<close>; when the listing that then tries the credentials succeeds,
  the result is \<open>true\<close>, the session stays authenticated and \<open>authenticated\<close> is emitted
  once more.
\<close>

lemma verify_expired_token:
  assumes "auth s = Some a"
    and "new_Date rt (member (loadTokensFromSettings co s) ''expiry_date'') = Inr expiryDate
         \<and> expired rt expiryDate"
    and "truthy (member (loadTokensFromSettings co s) ''refresh_token'')"
  shows "length (filter is_refresh (calls (snd (verifyAndInitializeAuth co rt s))))
           = length (filter is_refresh (calls s)) + 1
    \<and> (\<forall>e. refreshToken co s (member (loadTokensFromSettings co s) ''refresh_token'') = Inl e \<longrightarrow>
          fst (verifyAndInitializeAuth co rt s) = False
          \<and> settings (snd (verifyAndInitializeAuth co rt s)) = settings s
          \<and> \<not> isAuthenticated (snd (verifyAndInitializeAuth co rt s))
          \<and> events (snd (verifyAndInitializeAuth co rt s)) = events s @ [AuthenticationRequired])
    \<and> (\<forall>refreshed merged.
          refreshToken co s (member (loadTokensFromSettings co s) ''refresh_token'') = Inr refreshed
          \<and> merged = merge_tokens (loadTokensFromSettings co s) refreshed
                        (member (loadTokensFromSettings co s) ''refresh_token'')
          \<and> put_throws co (called (RefreshToken (member (loadTokensFromSettings co s) ''refresh_token'')) s)
                ''google_tokens'' (JObj merged) = None \<longrightarrow>
          fst (loadSavedTokens co rt s) = True
          \<and> stored_tokens (snd (loadSavedTokens co rt s)) = JObj merged
          \<and> field merged ''refresh_token'' = member (loadTokensFromSettings co s) ''refresh_token''
          \<and> auth (snd (loadSavedTokens co rt s)) = Some (a \<lparr> credentials := JObj merged \<rparr>)
          \<and> isAuthenticated (snd (loadSavedTokens co rt s))
          \<and> events (snd (loadSavedTokens co rt s)) =
               events s @ [Authenticated (a \<lparr> credentials := JObj merged \<rparr>)]
          \<and> (\<forall>d. drive s \<and> files_list co (snd (loadSavedTokens co rt s)) probe_params = Inr d \<longrightarrow>
                fst (verifyAndInitializeAuth co rt s) = True
                \<and> stored_tokens (snd (verifyAndInitializeAuth co rt s)) = JObj merged
                \<and> isAuthenticated (snd (verifyAndInitializeAuth co rt s))
                \<and> events (snd (verifyAndInitializeAuth co rt s)) =
                     events s @ [Authenticated (a \<lparr> credentials := JObj merged \<rparr>),
                                 Authenticated (a \<lparr> credentials := JObj merged \<rparr>)]))"
proof (intro conjI allI impI)
  let ?tokens = "loadTokensFromSettings co s"
  let ?r = "member ?tokens ''refresh_token''"
  have tr: "truthy ?tokens"
    using assms(3) by (rule truthy_member)
  from verify_calls [of co rt s] obtain probe where
    "calls (snd (verifyAndInitializeAuth co rt s)) = calls (snd (loadSavedTokens co rt s)) @ probe"
    "filter is_refresh probe = []"
    by blast
  with loadSavedTokens_refresh_calls [OF tr assms(2,3,1)]
  show "length (filter is_refresh (calls (snd (verifyAndInitializeAuth co rt s))))
           = length (filter is_refresh (calls s)) + 1"
    by simp
next
  fix e
  assume f: "refreshToken co s (member (loadTokensFromSettings co s) ''refresh_token'') = Inl e"
  have tr: "truthy (loadTokensFromSettings co s)"
    using assms(3) by (rule truthy_member)
  note l = loadSavedTokens_refresh_fails [OF assms(1) tr assms(2,3) f]
  from l show "fst (verifyAndInitializeAuth co rt s) = False"
    by (simp add: verifyAndInitializeAuth_def)
  from l show "settings (snd (verifyAndInitializeAuth co rt s)) = settings s"
    by (simp add: verifyAndInitializeAuth_def emit_def called_def)
  from l show "\<not> isAuthenticated (snd (verifyAndInitializeAuth co rt s))"
    by (simp add: verifyAndInitializeAuth_def emit_def called_def)
  from l show "events (snd (verifyAndInitializeAuth co rt s)) = events s @ [AuthenticationRequired]"
    by (simp add: verifyAndInitializeAuth_def emit_def called_def)
next
  fix refreshed merged
  assume h: "refreshToken co s (member (loadTokensFromSettings co s) ''refresh_token'') = Inr refreshed
          \<and> merged = merge_tokens (loadTokensFromSettings co s) refreshed
                        (member (loadTokensFromSettings co s) ''refresh_token'')
          \<and> put_throws co (called (RefreshToken (member (loadTokensFromSettings co s) ''refresh_token'')) s)
                ''google_tokens'' (JObj merged) = None"
  have tr: "truthy (loadTokensFromSettings co s)"
    using assms(3) by (rule truthy_member)
  note h1 = h [THEN conjunct1]
  note h2 = h [THEN conjunct2, THEN conjunct1]
  note h3 = h [THEN conjunct2, THEN conjunct2]
  note l = loadSavedTokens_refresh_ok [OF assms(1) tr assms(2,3) h1 h2 h3]
  from l show "fst (loadSavedTokens co rt s) = True" by simp
  from l show "stored_tokens (snd (loadSavedTokens co rt s)) = JObj merged"
    by (simp add: stored_tokens_def update_conv')
  from h2 show "field merged ''refresh_token'' = member (loadTokensFromSettings co s) ''refresh_token''"
    by (simp add: refresh_token_merged)
  from l show "auth (snd (loadSavedTokens co rt s)) = Some (a \<lparr> credentials := JObj merged \<rparr>)" by simp
  from l show "isAuthenticated (snd (loadSavedTokens co rt s))" by simp
  from l show "events (snd (loadSavedTokens co rt s)) =
               events s @ [Authenticated (a \<lparr> credentials := JObj merged \<rparr>)]" by simp
  fix d
  assume p: "drive s \<and> files_list co (snd (loadSavedTokens co rt s)) probe_params = Inr d"
  have dr: "drive (snd (loadSavedTokens co rt s))"
    using l p by (simp add: called_def)
  have v: "verifyAndInitializeAuth co rt s =
      (True, emit (Authenticated (a \<lparr> credentials := JObj merged \<rparr>))
               ((called (FilesList probe_params) (snd (loadSavedTokens co rt s))) \<lparr> isAuthenticated := True \<rparr>))"
    using l p dr
    by (simp add: verifyAndInitializeAuth_def drive_files_list_def split: prod.splits)
  from v show "fst (verifyAndInitializeAuth co rt s) = True" by simp
  from v l show "stored_tokens (snd (verifyAndInitializeAuth co rt s)) = JObj merged"
    by (simp add: stored_tokens_def update_conv' emit_def called_def)
  from v show "isAuthenticated (snd (verifyAndInitializeAuth co rt s))"
    by (simp add: emit_def called_def)
  from v l show "events (snd (verifyAndInitializeAuth co rt s)) =
                     events s @ [Authenticated (a \<lparr> credentials := JObj merged \<rparr>),
                                 Authenticated (a \<lparr> credentials := JObj merged \<rparr>)]"
    by (simp add: emit_def called_def)
qed

text \<open>
  Claim C4 fails when the provider rejects the refresh. The settings store holds an
  expired token record with a \<open>refresh_token\<close>; \<open>verifyAndInitializeAuth\<close> asks for one
  refresh, which the provider rejects. The result is \<open>false\<close>, the session is
  unauthenticated and \<open>authenticationRequired\<close> is emitted, but the stored tokens are not
  invalidated: the expired record, with its \<open>refresh_token\<close>, is still in the settings
  store afterwards (it is not \<open>null\<close>).
\<close>

theorem C4_refresh_failure_keeps_tokens:
  "auth expired_service = Some sample_client
   \<and> stored_tokens expired_service = old_tokens
   \<and> loadTokensFromSettings refresh_down expired_service = old_tokens
   \<and> new_Date sample_runtime (member old_tokens ''expiry_date'') = Inr (Some 1000)
   \<and> expired sample_runtime (Some 1000)
   \<and> member old_tokens ''refresh_token'' = JStr ''rt-1''
   \<and> refreshToken refresh_down expired_service (JStr ''rt-1'') = Inl (JsError ''invalid_grant'')
   \<and> calls (snd (verifyAndInitializeAuth refresh_down sample_runtime expired_service))
       = [RefreshToken (JStr ''rt-1'')]
   \<and> fst (verifyAndInitializeAuth refresh_down sample_runtime expired_service) = False
   \<and> isAuthenticated (snd (verifyAndInitializeAuth refresh_down sample_runtime expired_service)) = False
   \<and> AuthenticationRequired
       \<in> set (events (snd (verifyAndInitializeAuth refresh_down sample_runtime expired_service)))
   \<and> stored_tokens (snd (verifyAndInitializeAuth refresh_down sample_runtime expired_service)) = old_tokens
   \<and> old_tokens \<noteq> JNull"
  by code_simp



subsection \<open>Worked examples\<close>

text \<open>Claim C5, as amended, on the sample arguments: filter and query, each alone, and
  neither; and on a filter that is no date, and on one that does not convert.\<close>

theorem C5_witness:
  "truthy (member (a_filters sample_args) ''modifiedTime'')
   \<and> new_Date sample_runtime (member (a_filters sample_args) ''modifiedTime'') = Inr (Some 1704067200000)
   \<and> a_query sample_args = JStr ''trashed = false''
   \<and> truthy (a_query sample_args) \<and> js_String sample_runtime (a_query sample_args) = Inr ''trashed = false''
   \<and> \<not> truthy JNull \<and> \<not> truthy (member JNull ''modifiedTime'')
   \<and> queryString sample_runtime (a_query sample_args) (a_filters sample_args)
       = Inr ''modifiedTime > '2024-01-01T00:00:00.000Z' and trashed = false''
   \<and> queryString sample_runtime JNull (a_filters sample_args)
       = Inr (''modifiedTime > '2024-01-01T00:00:00.000Z'' @ [CHR 0x27])
   \<and> queryString sample_runtime (a_query sample_args) JNull = Inr ''trashed = false''
   \<and> queryString sample_runtime JNull JNull = Inr []
   \<and> q_of [] = None
   \<and> initialized ready_service \<and> drive ready_service
   \<and> calls (snd (listFiles provider_ok sample_runtime sample_args ready_service))
       = [FilesList (listing_params sample_args
            ''modifiedTime > '2024-01-01T00:00:00.000Z' and trashed = false'')]
   \<and> p_q (listing_params sample_args ''modifiedTime > '2024-01-01T00:00:00.000Z' and trashed = false'')
       = Some ''modifiedTime > '2024-01-01T00:00:00.000Z' and trashed = false''
   \<and> truthy (member (a_filters yesterday_args) ''modifiedTime'')
   \<and> new_Date sample_runtime (member (a_filters yesterday_args) ''modifiedTime'') = Inr None
   \<and> listFiles provider_ok sample_runtime yesterday_args ready_service
       = (Some (Inl (JsError ''Invalid time value'')), ready_service)
   \<and> new_Date sample_runtime (member (JObj [(''modifiedTime'', JObj [(''toString'', JNum 1)])]) ''modifiedTime'')
       = Inl (JsError ''Cannot convert object to primitive value'')
   \<and> queryString sample_runtime JNull (JObj [(''modifiedTime'', JObj [(''toString'', JNum 1)])])
       = Inl (JsError ''Cannot convert object to primitive value'')"
proof -
  have h: "truthy (member (a_filters sample_args) ''modifiedTime'')
     \<and> new_Date sample_runtime (member (a_filters sample_args) ''modifiedTime'') = Inr (Some 1704067200000)
     \<and> a_query sample_args = JStr ''trashed = false''
     \<and> \<not> truthy JNull \<and> \<not> truthy (member JNull ''modifiedTime'')
     \<and> initialized ready_service \<and> drive ready_service \<and> calls ready_service = []
     \<and> truthy (member (a_filters yesterday_args) ''modifiedTime'')
     \<and> new_Date sample_runtime (member (a_filters yesterday_args) ''modifiedTime'') = Inr None"
    by code_simp
  have o: "truthy (member (JObj [(''modifiedTime'', JObj [(''toString'', JNum 1)])]) ''modifiedTime'')
     \<and> new_Date sample_runtime (member (JObj [(''modifiedTime'', JObj [(''toString'', JNum 1)])]) ''modifiedTime'')
         = Inl (JsError ''Cannot convert object to primitive value'')"
    by code_simp
  have v: "isoString sample_runtime 1704067200000 = ''2024-01-01T00:00:00.000Z''"
    "default_null (a_query sample_args) = a_query sample_args"
    "default_null (a_filters sample_args) = a_filters sample_args"
    "default_null (a_query yesterday_args) = a_query yesterday_args"
    "default_null (a_filters yesterday_args) = a_filters yesterday_args"
    by code_simp+
  note c = C5_query_conjunction [where rt = sample_runtime and t = 1704067200000 and co = provider_ok
      and s = ready_service and free_text = "''trashed = false''"]
  from c [where query = "a_query sample_args" and filters = JNull,
      THEN conjunct2, THEN conjunct2, THEN conjunct2, THEN conjunct2, THEN conjunct1,
      rule_format, of "''trashed = false''"] h
  have q: "truthy (a_query sample_args)
     \<and> js_String sample_runtime (a_query sample_args) = Inr ''trashed = false''"
    by simp
  from c [where query = "a_query sample_args" and filters = "a_filters sample_args"] h q v
  have 1: "queryString sample_runtime (a_query sample_args) (a_filters sample_args)
       = Inr ''modifiedTime > '2024-01-01T00:00:00.000Z' and trashed = false''"
    by simp
  from c [where query = JNull and filters = "a_filters sample_args"] h v
  have 2: "queryString sample_runtime JNull (a_filters sample_args)
       = Inr (''modifiedTime > '2024-01-01T00:00:00.000Z'' @ [CHR 0x27])"
    by simp
  from c [where query = "a_query sample_args" and filters = JNull] h q v
  have 3: "queryString sample_runtime (a_query sample_args) JNull = Inr ''trashed = false''"
    by simp
  from c [where query = JNull and filters = JNull] h
  have 4: "queryString sample_runtime JNull JNull = Inr [] \<and> q_of [] = None"
    by simp
  from c [where query = JNull and filters = JNull and args = sample_args
      and qs = "''modifiedTime > '2024-01-01T00:00:00.000Z' and trashed = false''"] h v 1
  have 5: "calls (snd (listFiles provider_ok sample_runtime sample_args ready_service))
       = [FilesList (listing_params sample_args
            ''modifiedTime > '2024-01-01T00:00:00.000Z' and trashed = false'')]
     \<and> p_q (listing_params sample_args ''modifiedTime > '2024-01-01T00:00:00.000Z' and trashed = false'')
       = q_of ''modifiedTime > '2024-01-01T00:00:00.000Z' and trashed = false''"
    by simp
  have 6: "q_of ''modifiedTime > '2024-01-01T00:00:00.000Z' and trashed = false''
       = Some ''modifiedTime > '2024-01-01T00:00:00.000Z' and trashed = false''"
    by (simp add: q_of_def)
  from c [where query = "a_query yesterday_args" and filters = "a_filters yesterday_args"] h
  have 7: "queryString sample_runtime (a_query yesterday_args) (a_filters yesterday_args)
       = Inl (JsError ''Invalid time value'')"
    by simp
  from c [where query = JNull and filters = JNull and args = yesterday_args
      and e = "JsError ''Invalid time value''"] h v 7
  have 8: "listFiles provider_ok sample_runtime yesterday_args ready_service
       = (Some (Inl (JsError ''Invalid time value'')), ready_service)"
    by simp
  from c [where query = JNull and filters = "JObj [(''modifiedTime'', JObj [(''toString'', JNum 1)])]"
      and e = "JsError ''Cannot convert object to primitive value''"] o
  have 9: "queryString sample_runtime JNull (JObj [(''modifiedTime'', JObj [(''toString'', JNum 1)])])
       = Inl (JsError ''Cannot convert object to primitive value'')"
    by blast
  from h q o 1 2 3 4 5 6 8 9 show ?thesis
    by simp
qed

text \<open>Claim C6 on a page that has a successor and on a last page.\<close>

theorem C6_witness:
  "initialized ready_service \<and> drive ready_service
   \<and> queryString sample_runtime (default_null (a_query sample_args)) (default_null (a_filters sample_args))
       = Inr ''modifiedTime > '2024-01-01T00:00:00.000Z' and trashed = false''
   \<and> fst (listFiles provider_ok sample_runtime sample_args ready_service) =
       Some (Inr \<lparr> l_files = JArr [], l_nextPageToken = JStr ''page-2'', l_hasMore = True \<rparr>)
   \<and> fst (listFiles last_page sample_runtime sample_args ready_service) =
       Some (Inr \<lparr> l_files = JArr [], l_nextPageToken = JUndefined, l_hasMore = False \<rparr>)"
proof -
  have h: "initialized ready_service \<and> drive ready_service
     \<and> queryString sample_runtime (default_null (a_query sample_args)) (default_null (a_filters sample_args))
         = Inr ''modifiedTime > '2024-01-01T00:00:00.000Z' and trashed = false''"
    by code_simp
  have f: "files_list provider_ok ready_service
             (listing_params sample_args ''modifiedTime > '2024-01-01T00:00:00.000Z' and trashed = false'')
           = Inr \<lparr> data_files = JArr [], data_nextPageToken = JStr ''page-2'' \<rparr>"
    "files_list last_page ready_service
             (listing_params sample_args ''modifiedTime > '2024-01-01T00:00:00.000Z' and trashed = false'')
           = Inr \<lparr> data_files = JArr [], data_nextPageToken = JUndefined \<rparr>"
    by (simp_all add: provider_ok_def last_page_def)
  from C6_hasMore [where co = provider_ok and rt = sample_runtime and args = sample_args
      and s = ready_service and qs = "''modifiedTime > '2024-01-01T00:00:00.000Z' and trashed = false''"
      and d = "\<lparr> data_files = JArr [], data_nextPageToken = JStr ''page-2'' \<rparr>"]
    C6_hasMore [where co = last_page and rt = sample_runtime and args = sample_args
      and s = ready_service and qs = "''modifiedTime > '2024-01-01T00:00:00.000Z' and trashed = false''"
      and d = "\<lparr> data_files = JArr [], data_nextPageToken = JUndefined \<rparr>"]
    h f
  show ?thesis
    by simp
qed



end
